theory Spec2Isabelle
  imports Complex_Main
begin

section \<open>Python values: exceptions and arrays\<close>

text \<open>
  The exceptions the distribution classes raise.  \<open>LibraryError\<close> stands for the
  exception raised inside TensorFlow when it rejects its arguments: a shape with a
  negative dimension, an empty list given to \<open>tf.pack\<close>, operands whose shapes do not
  broadcast.  The statements below use only that such a call raises.
\<close>

datatype error = IndexError | ValueError string | NotImplementedError | LibraryError

type_synonym 'a result = "error + 'a"

definition and_then :: "'a result \<Rightarrow> ('a \<Rightarrow> 'b result) \<Rightarrow> 'b result" where
  "and_then r f = (case r of Inl e \<Rightarrow> Inl e | Inr x \<Rightarrow> f x)"

fun map_result :: "('a \<Rightarrow> 'b result) \<Rightarrow> 'a list \<Rightarrow> 'b list result" where
  "map_result f [] = Inr []"
| "map_result f (x # xs) =
     and_then (f x) (\<lambda>y. and_then (map_result f xs) (\<lambda>ys. Inr (y # ys)))"

text \<open>\<open>tf.pack(values)\<close>: the tensor of the listed ones; it does not take an empty list.\<close>

definition tf_pack :: "'a list \<Rightarrow> 'a list result" where
  "tf_pack values = (if values = [] then Inl LibraryError else Inr values)"

text \<open>
  A two-dimensional array (a batch \<open>xs\<close> of shape \<open>[n, num_vars]\<close>, a sample): its number
  of columns and its rows.  The number of rows, \<open>xs.shape[0]\<close>, is \<open>length (rows xs)\<close>.
\<close>

record ndarray =
  ncols :: nat
  rows :: "real list list"

text \<open>
  \<open>xs[:, i]\<close>: the column \<open>i\<close>; an index past the last column raises, \<open>IndexError\<close> for
  the NumPy array that \<open>log_prob_i\<close> documents \<open>xs\<close> to be (a TensorFlow tensor raises
  too, with another exception).
\<close>

definition getcol :: "ndarray \<Rightarrow> nat \<Rightarrow> real list result" where
  "getcol xs i = (if i < ncols xs then Inr (map (\<lambda>r. r ! i) (rows xs)) else Inl IndexError)"

text \<open>\<open>xs[:, start:final]\<close>: a slice never raises, its bounds are clipped to the array.\<close>

definition slice_cols :: "ndarray \<Rightarrow> nat \<Rightarrow> nat \<Rightarrow> ndarray" where
  "slice_cols xs start final =
     \<lparr>ncols = min final (ncols xs) - min start (ncols xs),
      rows = map (\<lambda>r. take (final - start) (drop start r)) (rows xs)\<rparr>"

text \<open>\<open>p[i]\<close> on a vector, \<open>alpha[i, :]\<close> on a matrix kept as the list of its rows.\<close>

definition getitem :: "'a list \<Rightarrow> nat \<Rightarrow> 'a result" where
  "getitem p i = (if i < length p then Inr (p ! i) else Inl IndexError)"

section \<open>The numeric kernel\<close>

definition sigmoid :: "real \<Rightarrow> real" where
  "sigmoid x = 1 / (1 + exp (- x))"

definition softplus :: "real \<Rightarrow> real" where
  "softplus x = ln (1 + exp x)"


definition nearest_even :: "real \<Rightarrow> int" where
  "nearest_even r =
     (let f = \<lfloor>r\<rfloor> in
      if r - of_int f < 1 / 2 then f
      else if 1 / 2 < r - of_int f then f + 1
      else if even f then f else f + 1)"

definition round32 :: "real \<Rightarrow> real" where
  "round32 x =
     (if x = 0 then 0
      else let u = 2 powr (of_int \<lfloor>log 2 \<bar>x\<bar>\<rfloor> - 23)
           in sgn x * (u * of_int (nearest_even (\<bar>x\<bar> / u))))"

text \<open>
  \<open>tf.random_normal\<close> draws from the process-wide generator.  The values it returns are
  a parameter of the model: a noise source gives the entry at each index, so that a
  draw of shape \<open>[n]\<close> or \<open>[n, m]\<close> ranges over every vector or matrix of that shape.
\<close>

type_synonym noise1 = "nat \<Rightarrow> real"
type_synonym noise2 = "nat \<Rightarrow> nat \<Rightarrow> real"

definition random_normal1 :: "noise1 \<Rightarrow> nat \<Rightarrow> real list" where
  "random_normal1 g n = map g [0..<n]"

definition random_normal2 :: "noise2 \<Rightarrow> nat \<Rightarrow> nat \<Rightarrow> real list list" where
  "random_normal2 g n m = map (\<lambda>i. map (g i) [0..<m]) [0..<n]"

text \<open>
  Modelled from the spec: the module \<open>edward.stats\<close> (the densities, entropies and SciPy
  samplers of the elementary distributions) is not among the sources.  Its functions are
  a parameter: each field gives the value for one scalar (or, for Dirichlet and
  Multinomial, one \<open>K\<close>-vector), and the methods below apply it to every row of a batch
  and to every factor, as the spec describes \<open>log_prob_i\<close> (one value per row) and
  \<open>entropy\<close> (summed over the factors).  A sampler gives the draw of its \<open>c\<close>-th call for
  row \<open>r\<close> (and component \<open>k\<close>).
\<close>

record stats =
  bernoulli_logpmf :: "real \<Rightarrow> real \<Rightarrow> real"
  bernoulli_entropy :: "real \<Rightarrow> real"
  bernoulli_rvs :: "nat \<Rightarrow> nat \<Rightarrow> real \<Rightarrow> real"
  beta_logpdf :: "real \<Rightarrow> real \<Rightarrow> real \<Rightarrow> real"
  beta_entropy :: "real \<Rightarrow> real \<Rightarrow> real"
  beta_rvs :: "nat \<Rightarrow> nat \<Rightarrow> real \<Rightarrow> real \<Rightarrow> real"
  dirichlet_logpdf :: "real list \<Rightarrow> real list \<Rightarrow> real"
  dirichlet_entropy :: "real list \<Rightarrow> real"
  dirichlet_rvs :: "nat \<Rightarrow> nat \<Rightarrow> nat \<Rightarrow> real list \<Rightarrow> real"
  invgamma_logpdf :: "real \<Rightarrow> real \<Rightarrow> real \<Rightarrow> real"
  invgamma_entropy :: "real \<Rightarrow> real \<Rightarrow> real"
  invgamma_rvs :: "nat \<Rightarrow> nat \<Rightarrow> real \<Rightarrow> real \<Rightarrow> real"
  multinomial_logpmf :: "real list \<Rightarrow> nat \<Rightarrow> real list \<Rightarrow> real"
  multinomial_entropy :: "nat \<Rightarrow> real list \<Rightarrow> real"
  multinomial_rvs :: "nat \<Rightarrow> nat \<Rightarrow> nat \<Rightarrow> nat \<Rightarrow> real list \<Rightarrow> real"
  norm_logpdf :: "real \<Rightarrow> real \<Rightarrow> real \<Rightarrow> real"
  norm_entropy :: "real \<Rightarrow> real"

section \<open>Distribution objects\<close>

text \<open>
  An object of one of the seven concrete classes: the attributes every
  \<open>Distribution\<close> has, and the class together with the attributes of its own
  (\<open>p\<close>; \<open>alpha\<close>, \<open>beta\<close>; \<open>K\<close>, \<open>alpha\<close>; \<open>alpha\<close>, \<open>beta\<close>; \<open>K\<close>, \<open>pi\<close>; \<open>loc\<close>, \<open>scale\<close>;
  \<open>params\<close>).  Counts and factor indices are natural numbers.  The attribute \<open>pi\<close> is written
  \<open>pi'\<close>, since \<open>pi\<close> is the circle constant here.
\<close>

datatype variant =
    Bernoulli "real list"
  | Beta "real list" "real list"
  | Dirichlet nat "real list list"
  | InvGamma "real list" "real list"
  | Multinomial nat "real list list"
  | Normal "real list" "real list"
  | PointMass "real list"

record distribution =
  num_factors :: nat
  num_vars :: nat
  num_params :: nat
  sample_tensor :: bool
  attrs :: variant

subsection \<open>\<open>log_prob_i\<close>\<close>

definition Bernoulli_log_prob_i ::
  "stats \<Rightarrow> distribution \<Rightarrow> real list \<Rightarrow> nat \<Rightarrow> ndarray \<Rightarrow> real list result" where
  "Bernoulli_log_prob_i st self p i xs =
     (if i \<ge> num_factors self then Inl IndexError
      else and_then (getcol xs i) (\<lambda>c.
           and_then (getitem p i) (\<lambda>p_i.
           Inr (map (\<lambda>x. bernoulli_logpmf st x p_i) c))))"

definition Beta_log_prob_i ::
  "stats \<Rightarrow> distribution \<Rightarrow> real list \<Rightarrow> real list \<Rightarrow> nat \<Rightarrow> ndarray \<Rightarrow> real list result" where
  "Beta_log_prob_i st self alpha beta i xs =
     (if i \<ge> num_factors self then Inl IndexError
      else and_then (getcol xs i) (\<lambda>c.
           and_then (getitem alpha i) (\<lambda>a.
           and_then (getitem beta i) (\<lambda>b.
           Inr (map (\<lambda>x. beta_logpdf st x a b) c)))))"

definition Dirichlet_log_prob_i ::
  "stats \<Rightarrow> distribution \<Rightarrow> nat \<Rightarrow> real list list \<Rightarrow> nat \<Rightarrow> ndarray \<Rightarrow> real list result" where
  "Dirichlet_log_prob_i st self K alpha i xs =
     (if i \<ge> num_factors self then Inl IndexError
      else and_then (getitem alpha i) (\<lambda>a.
           Inr (map (\<lambda>x. dirichlet_logpdf st x a)
                  (rows (slice_cols xs (i * K) ((i + 1) * K))))))"

definition InvGamma_log_prob_i ::
  "stats \<Rightarrow> distribution \<Rightarrow> real list \<Rightarrow> real list \<Rightarrow> nat \<Rightarrow> ndarray \<Rightarrow> real list result" where
  "InvGamma_log_prob_i st self alpha beta i xs =
     (if i \<ge> num_factors self then Inl IndexError
      else and_then (getcol xs i) (\<lambda>c.
           and_then (getitem alpha i) (\<lambda>a.
           and_then (getitem beta i) (\<lambda>b.
           Inr (map (\<lambda>x. invgamma_logpdf st x a b) c)))))"

definition Multinomial_log_prob_i ::
  "stats \<Rightarrow> distribution \<Rightarrow> nat \<Rightarrow> real list list \<Rightarrow> nat \<Rightarrow> ndarray \<Rightarrow> real list result" where
  "Multinomial_log_prob_i st self K pi' i xs =
     (if i \<ge> num_factors self then Inl IndexError
      else and_then (getitem pi' i) (\<lambda>a.
           Inr (map (\<lambda>x. multinomial_logpmf st x 1 a)
                  (rows (slice_cols xs (i * K) ((i + 1) * K))))))"

definition Normal_log_prob_i ::
  "stats \<Rightarrow> distribution \<Rightarrow> real list \<Rightarrow> real list \<Rightarrow> nat \<Rightarrow> ndarray \<Rightarrow> real list result" where
  "Normal_log_prob_i st self loc scale i xs =
     (if i \<ge> num_factors self then Inl IndexError
      else and_then (getitem loc i) (\<lambda>loci.
           and_then (getitem scale i) (\<lambda>scalei.
           and_then (getcol xs i) (\<lambda>c.
           Inr (map (\<lambda>x. norm_logpdf st x loci scalei) c)))))"

definition PointMass_log_prob_i ::
  "distribution \<Rightarrow> real list \<Rightarrow> nat \<Rightarrow> ndarray \<Rightarrow> real list result" where
  "PointMass_log_prob_i self params i xs =
     (if i \<ge> num_factors self then Inl IndexError
      else and_then (getcol xs i) (\<lambda>c.
           and_then (getitem params i) (\<lambda>p.
           Inr (map (\<lambda>x. if x = p then 1 else 0) c))))"

text \<open>The call \<open>layer.log_prob_i(i, xs)\<close>: the method of the object's class.\<close>

definition log_prob_i :: "stats \<Rightarrow> distribution \<Rightarrow> nat \<Rightarrow> ndarray \<Rightarrow> real list result" where
  "log_prob_i st self i xs =
     (case attrs self of
        Bernoulli p \<Rightarrow> Bernoulli_log_prob_i st self p i xs
      | Beta alpha beta \<Rightarrow> Beta_log_prob_i st self alpha beta i xs
      | Dirichlet K alpha \<Rightarrow> Dirichlet_log_prob_i st self K alpha i xs
      | InvGamma alpha beta \<Rightarrow> InvGamma_log_prob_i st self alpha beta i xs
      | Multinomial K pi' \<Rightarrow> Multinomial_log_prob_i st self K pi' i xs
      | Normal loc scale \<Rightarrow> Normal_log_prob_i st self loc scale i xs
      | PointMass params \<Rightarrow> PointMass_log_prob_i self params i xs)"

subsection \<open>Which class defines which method\<close>

text \<open>
  The methods written in the body of each class, that is the keys of
  \<open>layer.__class__.__dict__\<close> that \<open>Variational\<close> looks up.  A method a class does not
  define is inherited from \<open>Distribution\<close>.
\<close>

fun class_dict :: "variant \<Rightarrow> string list" where
  "class_dict (Bernoulli p) = [''__init__'', ''__str__'', ''sample'', ''log_prob_i'', ''entropy'']"
| "class_dict (Beta alpha beta) = [''__init__'', ''__str__'', ''sample'', ''log_prob_i'', ''entropy'']"
| "class_dict (Dirichlet K alpha) = [''__init__'', ''__str__'', ''sample'', ''log_prob_i'', ''entropy'']"
| "class_dict (InvGamma alpha beta) = [''__init__'', ''__str__'', ''sample'', ''log_prob_i'', ''entropy'']"
| "class_dict (Multinomial K pi') = [''__init__'', ''__str__'', ''sample'', ''log_prob_i'', ''entropy'']"
| "class_dict (Normal loc scale) =
     [''__init__'', ''__str__'', ''sample_noise'', ''reparam'', ''log_prob_i'', ''entropy'']"
| "class_dict (PointMass params) = [''__init__'', ''__str__'', ''sample'', ''log_prob_i'']"

text \<open>\<open>name in layer.__class__.__dict__\<close> and \<open>isinstance(layer, Normal)\<close>.\<close>

definition class_defines :: "string \<Rightarrow> distribution \<Rightarrow> bool" where
  "class_defines name layer = (name \<in> set (class_dict (attrs layer)))"

definition isinstance_Normal :: "distribution \<Rightarrow> bool" where
  "isinstance_Normal layer = (case attrs layer of Normal loc scale \<Rightarrow> True | _ \<Rightarrow> False)"

subsection \<open>\<open>sample_noise\<close>, \<open>reparam\<close>, \<open>sample\<close>\<close>

definition Distribution_sample_noise :: "distribution \<Rightarrow> nat \<Rightarrow> ndarray result" where
  "Distribution_sample_noise self sz = Inl NotImplementedError"

definition Distribution_reparam :: "distribution \<Rightarrow> ndarray \<Rightarrow> ndarray result" where
  "Distribution_reparam self eps = Inl NotImplementedError"

definition Normal_sample_noise :: "noise2 \<Rightarrow> distribution \<Rightarrow> nat \<Rightarrow> ndarray result" where
  "Normal_sample_noise g self sz =
     Inr \<lparr>ncols = num_vars self, rows = random_normal2 g sz (num_vars self)\<rparr>"

text \<open>
  An operation between an array of shape \<open>[n, c]\<close> and a vector of shape \<open>[m]\<close>: the
  vector is applied to every row when \<open>c = m\<close>, a dimension of size one is stretched,
  and any other pair of shapes is rejected.
\<close>

definition broadcast ::
  "(real \<Rightarrow> real \<Rightarrow> real) \<Rightarrow> ndarray \<Rightarrow> real list \<Rightarrow> ndarray result" where
  "broadcast f a v =
     (if ncols a = length v then
        Inr \<lparr>ncols = ncols a, rows = map (\<lambda>r. map2 f r v) (rows a)\<rparr>
      else if length v = 1 then
        Inr \<lparr>ncols = ncols a, rows = map (map (\<lambda>e. f e (hd v))) (rows a)\<rparr>
      else if ncols a = 1 then
        Inr \<lparr>ncols = length v, rows = map (\<lambda>r. map (f (hd r)) v) (rows a)\<rparr>
      else Inl LibraryError)"

text \<open>\<open>self.loc + eps * self.scale\<close>: first the product, then the sum.\<close>

definition Normal_reparam ::
  "distribution \<Rightarrow> real list \<Rightarrow> real list \<Rightarrow> ndarray \<Rightarrow> ndarray result" where
  "Normal_reparam self loc scale eps =
     and_then (broadcast (*) eps scale) (\<lambda>a. broadcast (\<lambda>e l. l + e) a loc)"

definition sample_noise :: "noise2 \<Rightarrow> distribution \<Rightarrow> nat \<Rightarrow> ndarray result" where
  "sample_noise g self sz =
     (case attrs self of
        Normal loc scale \<Rightarrow> Normal_sample_noise g self sz
      | _ \<Rightarrow> Distribution_sample_noise self sz)"

definition reparam :: "distribution \<Rightarrow> ndarray \<Rightarrow> ndarray result" where
  "reparam self eps =
     (case attrs self of
        Normal loc scale \<Rightarrow> Normal_reparam self loc scale eps
      | _ \<Rightarrow> Distribution_reparam self eps)"

definition Distribution_sample :: "noise2 \<Rightarrow> distribution \<Rightarrow> nat \<Rightarrow> ndarray result" where
  "Distribution_sample g self sz = and_then (sample_noise g self sz) (reparam self)"

text \<open>
  The samplers of the other classes fill \<open>x = np.zeros((size, num_vars))\<close> in a loop,
  one column (\<open>x[:, d] = ...\<close>) or one block of \<open>K\<close> columns
  (\<open>x[:, i*K:(i+1)*K] = ...\<close>) at a time.  The argument \<open>size\<close> is written \<open>sz\<close>.
\<close>

definition zeros :: "nat \<Rightarrow> nat \<Rightarrow> ndarray" where
  "zeros sz n = \<lparr>ncols = n, rows = replicate sz (replicate n 0)\<rparr>"

definition setcol :: "ndarray \<Rightarrow> nat \<Rightarrow> real list \<Rightarrow> ndarray" where
  "setcol x d c = x\<lparr>rows := map2 (\<lambda>r v. r[d := v]) (rows x) c\<rparr>"

definition setblock :: "ndarray \<Rightarrow> nat \<Rightarrow> real list list \<Rightarrow> ndarray" where
  "setblock x start b =
     x\<lparr>rows := map2 (\<lambda>r v. take start r @ v @ drop (start + length v) r) (rows x) b\<rparr>"

fun for_range :: "nat list \<Rightarrow> (nat \<Rightarrow> 'a \<Rightarrow> 'a result) \<Rightarrow> 'a \<Rightarrow> 'a result" where
  "for_range [] body x = Inr x"
| "for_range (d # ds) body x = and_then (body d x) (for_range ds body)"

definition Bernoulli_sample :: "stats \<Rightarrow> distribution \<Rightarrow> real list \<Rightarrow> nat \<Rightarrow> ndarray result" where
  "Bernoulli_sample st self p sz =
     for_range [0..<num_vars self]
       (\<lambda>d x. and_then (getitem p d) (\<lambda>p_d.
          Inr (setcol x d (map (\<lambda>r. bernoulli_rvs st d r p_d) [0..<sz]))))
       (zeros sz (num_vars self))"

definition Beta_sample ::
  "stats \<Rightarrow> distribution \<Rightarrow> real list \<Rightarrow> real list \<Rightarrow> nat \<Rightarrow> ndarray result" where
  "Beta_sample st self alpha beta sz =
     for_range [0..<num_vars self]
       (\<lambda>d x. and_then (getitem alpha d) (\<lambda>a. and_then (getitem beta d) (\<lambda>b.
          Inr (setcol x d (map (\<lambda>r. beta_rvs st d r a b) [0..<sz])))))
       (zeros sz (num_vars self))"

definition Dirichlet_sample ::
  "stats \<Rightarrow> distribution \<Rightarrow> nat \<Rightarrow> real list list \<Rightarrow> nat \<Rightarrow> ndarray result" where
  "Dirichlet_sample st self K alpha sz =
     for_range [0..<num_factors self]
       (\<lambda>i x. and_then (getitem alpha i) (\<lambda>a.
          Inr (setblock x (i * K)
                 (map (\<lambda>r. map (\<lambda>k. dirichlet_rvs st i r k a) [0..<K]) [0..<sz]))))
       (zeros sz (num_vars self))"

definition InvGamma_sample ::
  "stats \<Rightarrow> distribution \<Rightarrow> real list \<Rightarrow> real list \<Rightarrow> nat \<Rightarrow> ndarray result" where
  "InvGamma_sample st self alpha beta sz =
     for_range [0..<num_vars self]
       (\<lambda>d x. and_then (getitem alpha d) (\<lambda>a. and_then (getitem beta d) (\<lambda>b.
          Inr (setcol x d (map (\<lambda>r. invgamma_rvs st d r a b) [0..<sz])))))
       (zeros sz (num_vars self))"

definition Multinomial_sample ::
  "stats \<Rightarrow> distribution \<Rightarrow> nat \<Rightarrow> real list list \<Rightarrow> nat \<Rightarrow> ndarray result" where
  "Multinomial_sample st self K pi' sz =
     for_range [0..<num_factors self]
       (\<lambda>i x. and_then (getitem pi' i) (\<lambda>a.
          Inr (setblock x (i * K)
                 (map (\<lambda>r. map (\<lambda>k. multinomial_rvs st i r k 1 a) [0..<K]) [0..<sz]))))
       (zeros sz (num_vars self))"

text \<open>
  \<open>tf.pack([self.params]*size)\<close>: \<open>size\<close> copies of the parameter vector, as rows.  With
  \<open>size = 0\<close> the list is empty and \<open>tf.pack\<close> raises.
\<close>

definition PointMass_sample :: "distribution \<Rightarrow> real list \<Rightarrow> nat \<Rightarrow> ndarray result" where
  "PointMass_sample self params sz =
     and_then (tf_pack (replicate sz params))
       (\<lambda>packed. Inr \<lparr>ncols = length params, rows = packed\<rparr>)"

text \<open>
  The call \<open>layer.sample(size)\<close>.  \<open>Normal\<close> defines no \<open>sample\<close> and inherits
  \<open>Distribution.sample\<close>; every other class has a \<open>sample\<close> of its own.
\<close>

definition sample :: "stats \<Rightarrow> noise2 \<Rightarrow> distribution \<Rightarrow> nat \<Rightarrow> ndarray result" where
  "sample st g self sz =
     (case attrs self of
        Bernoulli p \<Rightarrow> Bernoulli_sample st self p sz
      | Beta alpha beta \<Rightarrow> Beta_sample st self alpha beta sz
      | Dirichlet K alpha \<Rightarrow> Dirichlet_sample st self K alpha sz
      | InvGamma alpha beta \<Rightarrow> InvGamma_sample st self alpha beta sz
      | Multinomial K pi' \<Rightarrow> Multinomial_sample st self K pi' sz
      | Normal loc scale \<Rightarrow> Distribution_sample g self sz
      | PointMass params \<Rightarrow> PointMass_sample self params sz)"

subsection \<open>\<open>entropy\<close>\<close>

definition Distribution_entropy :: "distribution \<Rightarrow> real result" where
  "Distribution_entropy self = Inl NotImplementedError"

text \<open>
  The call \<open>layer.entropy()\<close>: \<open>tf.reduce_sum\<close> of the entropies of the factors, and the
  inherited \<open>Distribution.entropy\<close> for \<open>PointMass\<close>, which defines none.
\<close>

definition entropy :: "stats \<Rightarrow> distribution \<Rightarrow> real result" where
  "entropy st self =
     (case attrs self of
        Bernoulli p \<Rightarrow> Inr (sum_list (map (bernoulli_entropy st) p))
      | Beta alpha beta \<Rightarrow> Inr (sum_list (map2 (beta_entropy st) alpha beta))
      | Dirichlet K alpha \<Rightarrow> Inr (sum_list (map (dirichlet_entropy st) alpha))
      | InvGamma alpha beta \<Rightarrow> Inr (sum_list (map2 (invgamma_entropy st) alpha beta))
      | Multinomial K pi' \<Rightarrow> Inr (sum_list (map (multinomial_entropy st 1) pi'))
      | Normal loc scale \<Rightarrow> Inr (sum_list (map (norm_entropy st) scale))
      | PointMass params \<Rightarrow> Distribution_entropy self)"

subsection \<open>Constructors\<close>

text \<open>
  \<open>cumprod\<close> of \<open>edward.util\<close>, on a vector: \<open>values[0]\<close> raises on an empty one, and each
  product is rounded.
\<close>

fun cumprod_loop ::
  "(real \<Rightarrow> real) \<Rightarrow> real \<Rightarrow> real list \<Rightarrow> real list \<Rightarrow> real list" where
  "cumprod_loop fl prev [] out = out"
| "cumprod_loop fl prev (val # vals) out =
     (let s = fl (prev * val) in cumprod_loop fl s vals (out @ [s]))"

definition cumprod :: "(real \<Rightarrow> real) \<Rightarrow> real list \<Rightarrow> real list result" where
  "cumprod fl xs =
     (case xs of [] \<Rightarrow> Inl IndexError | v # vs \<Rightarrow> tf_pack (cumprod_loop fl 1 xs []))"

definition Bernoulli_init :: "nat \<Rightarrow> real list option \<Rightarrow> noise1 \<Rightarrow> distribution" where
  "Bernoulli_init n p g =
     \<lparr>num_factors = n, num_vars = n, num_params = n, sample_tensor = False,
      attrs = Bernoulli (case p of None \<Rightarrow> map sigmoid (random_normal1 g n) | Some v \<Rightarrow> v)\<rparr>"

definition Beta_init ::
  "nat \<Rightarrow> real list option \<Rightarrow> real list option \<Rightarrow> noise1 \<Rightarrow> noise1 \<Rightarrow> distribution" where
  "Beta_init n alpha beta g1 g2 =
     \<lparr>num_factors = n, num_vars = n, num_params = 2 * n, sample_tensor = False,
      attrs = Beta
        (case alpha of None \<Rightarrow> map softplus (random_normal1 g1 n) | Some v \<Rightarrow> v)
        (case beta of None \<Rightarrow> map softplus (random_normal1 g2 n) | Some v \<Rightarrow> v)\<rparr>"

text \<open>\<open>shape[0]\<close> and \<open>shape[-1]\<close> raise on an empty shape.\<close>

definition Dirichlet_init ::
  "nat list \<Rightarrow> real list list option \<Rightarrow> noise2 \<Rightarrow> distribution result" where
  "Dirichlet_init shape alpha g =
     (if shape = [] then Inl IndexError
      else let n = hd shape; K = last shape in
        Inr \<lparr>num_factors = n, num_vars = K * n, num_params = K * n, sample_tensor = False,
             attrs = Dirichlet K
               (case alpha of None \<Rightarrow> map (map softplus) (random_normal2 g n K)
                | Some v \<Rightarrow> v)\<rparr>)"

definition InvGamma_init ::
  "nat \<Rightarrow> real list option \<Rightarrow> real list option \<Rightarrow> noise1 \<Rightarrow> noise1 \<Rightarrow> distribution" where
  "InvGamma_init n alpha beta g1 g2 =
     \<lparr>num_factors = n, num_vars = n, num_params = 2 * n, sample_tensor = False,
      attrs = InvGamma
        (case alpha of None \<Rightarrow> map (\<lambda>u. softplus u + 1 / 100) (random_normal1 g1 n)
         | Some v \<Rightarrow> v)
        (case beta of None \<Rightarrow> map (\<lambda>u. softplus u + 1 / 100) (random_normal1 g2 n)
         | Some v \<Rightarrow> v)\<rparr>"

text \<open>
  The default \<open>pi\<close> of \<open>Multinomial\<close>, the body of \<open>if pi is None\<close> after the draw of
  \<open>pi_unconst\<close> (shape \<open>[num_factors, K - 1]\<close>): \<open>eq\<close>, \<open>x\<close>, \<open>pil\<close>, \<open>piu\<close>, \<open>S\<close> and
  \<open>pi = S * pil\<close> as in the source, matrices as the lists of their rows, every
  operation rounded by \<open>fl\<close>.  With no factor, \<open>tf.unpack(piu)\<close> is the empty list and
  \<open>tf.pack\<close> raises.
\<close>

definition default_pi ::
  "(real \<Rightarrow> real) \<Rightarrow> nat \<Rightarrow> nat \<Rightarrow> real list list \<Rightarrow> real list list result" where
  "default_pi fl n K pi_unconst =
     (let eq = map (\<lambda>j. - fl (ln (real (K - 1 - j)))) [0..<K - 1];
          x = map (\<lambda>u. map (\<lambda>w. fl (sigmoid w)) (map2 (\<lambda>a b. fl (a + b)) eq u)) pi_unconst;
          pil = map2 (@) x (replicate n [1]);
          piu = map2 (@) (replicate n [1]) (map (map (\<lambda>v. fl (1 - v))) x)
      in and_then (map_result (cumprod fl) piu) (\<lambda>unpacked.
         and_then (tf_pack unpacked) (\<lambda>S.
         Inr (map2 (map2 (\<lambda>a b. fl (a * b))) S pil))))"

text \<open>
  With \<open>K = 0\<close> and no \<open>pi\<close> the draw has the shape \<open>[num_factors, -1]\<close>, which the library
  rejects.
\<close>

definition Multinomial_init ::
  "(real \<Rightarrow> real) \<Rightarrow> nat list \<Rightarrow> real list list option \<Rightarrow> noise2 \<Rightarrow> distribution result" where
  "Multinomial_init fl shape pi' g =
     (if shape = [] then Inl IndexError
      else let n = hd shape; K = last shape in
        if K = 1 then Inl (ValueError ''Multinomial is not supported for K=1. Use Bernoulli.'')
        else and_then
          (case pi' of
             None \<Rightarrow> if K = 0 then Inl LibraryError
                     else default_pi fl n K (random_normal2 g n (K - 1))
           | Some v \<Rightarrow> Inr v)
          (\<lambda>v. Inr \<lparr>num_factors = n, num_vars = K * n, num_params = K * n,
                    sample_tensor = False, attrs = Multinomial K v\<rparr>))"

definition Normal_init ::
  "nat \<Rightarrow> real list option \<Rightarrow> real list option \<Rightarrow> noise1 \<Rightarrow> noise1 \<Rightarrow> distribution" where
  "Normal_init n loc scale g1 g2 =
     \<lparr>num_factors = n, num_vars = n, num_params = 2 * n, sample_tensor = True,
      attrs = Normal
        (case loc of None \<Rightarrow> random_normal1 g1 n | Some v \<Rightarrow> v)
        (case scale of None \<Rightarrow> map softplus (random_normal1 g2 n) | Some v \<Rightarrow> v)\<rparr>"

definition PointMass_init :: "nat \<Rightarrow> real list option \<Rightarrow> noise1 \<Rightarrow> distribution" where
  "PointMass_init n params g =
     \<lparr>num_factors = 1, num_vars = n, num_params = n, sample_tensor = True,
      attrs = PointMass (case params of None \<Rightarrow> random_normal1 g n | Some v \<Rightarrow> v)\<rparr>"

section \<open>The composite: Variational\<close>

text \<open>
  \<open>self.layers\<close> is a reference to a Python list, \<open>self.layers = layers\<close> copies the
  reference and \<open>self.layers += [layer]\<close> extends the list in place.  The lists live in a
  store; the list of the default argument \<open>layers=[]\<close>, made once when the class is
  defined, is the one at \<open>default_layers\<close>.  The other attributes belong to the
  object alone.
\<close>

type_synonym ref = nat
type_synonym store = "ref \<Rightarrow> distribution list"

definition default_layers :: ref where
  "default_layers = 0"

record variational =
  layers :: ref
  num_factors :: nat
  num_vars :: nat
  num_params :: nat
  is_reparam :: bool
  is_normal :: bool
  is_entropy :: bool
  sample_tensor :: "bool list"

definition Variational_init :: "store \<Rightarrow> ref \<Rightarrow> variational" where
  "Variational_init s r =
     (if s r = [] then
        \<lparr>layers = r, num_factors = 0, num_vars = 0, num_params = 0,
         is_reparam = True, is_normal = True, is_entropy = True, sample_tensor = []\<rparr>
      else
        \<lparr>layers = r,
         num_factors = sum_list (map distribution.num_factors (s r)),
         num_vars = sum_list (map distribution.num_vars (s r)),
         num_params = sum_list (map distribution.num_params (s r)),
         is_reparam = list_all (class_defines ''reparam'') (s r),
         is_normal = list_all isinstance_Normal (s r),
         is_entropy = list_all (class_defines ''entropy'') (s r),
         sample_tensor = map distribution.sample_tensor (s r)\<rparr>)"

definition Variational_add ::
  "store \<Rightarrow> variational \<Rightarrow> distribution \<Rightarrow> store \<times> variational" where
  "Variational_add s self layer =
     (s(layers self := s (layers self) @ [layer]),
      self\<lparr>num_factors := num_factors self + distribution.num_factors layer,
           num_vars := num_vars self + distribution.num_vars layer,
           num_params := num_params self + distribution.num_params layer,
           is_reparam := (is_reparam self \<and> class_defines ''reparam'' layer),
           is_entropy := (is_entropy self \<and> class_defines ''entropy'' layer),
           is_normal := (is_normal self \<and> isinstance_Normal layer),
           sample_tensor := sample_tensor self @ [distribution.sample_tensor layer]\<rparr>)"

text \<open>The loop of \<open>Variational.log_prob_i\<close> over the layers, with \<open>i\<close>, \<open>start\<close>, \<open>final\<close>.\<close>

fun log_prob_i_loop ::
  "stats \<Rightarrow> distribution list \<Rightarrow> nat \<Rightarrow> nat \<Rightarrow> nat \<Rightarrow> ndarray \<Rightarrow> real list result" where
  "log_prob_i_loop st [] i start final xs = Inl IndexError"
| "log_prob_i_loop st (layer # rest) i start final xs =
     (let final = final + distribution.num_vars layer in
      if i < distribution.num_factors layer
      then log_prob_i st layer i (slice_cols xs start final)
      else log_prob_i_loop st rest (i - distribution.num_factors layer) final final xs)"

definition Variational_log_prob_i ::
  "stats \<Rightarrow> store \<Rightarrow> variational \<Rightarrow> nat \<Rightarrow> ndarray \<Rightarrow> real list result" where
  "Variational_log_prob_i st s self i xs = log_prob_i_loop st (s (layers self)) i 0 0 xs"

text \<open>The loop of \<open>Variational.entropy\<close>; it starts from \<open>out = 0.0\<close>.\<close>

fun entropy_loop :: "stats \<Rightarrow> distribution list \<Rightarrow> real \<Rightarrow> real result" where
  "entropy_loop st [] out = Inr out"
| "entropy_loop st (layer # rest) out =
     and_then (entropy st layer) (\<lambda>h. entropy_loop st rest (out + h))"

definition Variational_entropy :: "stats \<Rightarrow> store \<Rightarrow> variational \<Rightarrow> real result" where
  "Variational_entropy st s self = entropy_loop st (s (layers self)) 0"

section \<open>Predicates and closed forms used in the statements\<close>

text \<open>
  The aggregate attributes of a \<open>Variational\<close> agree with its list of layers: the three
  counts are the sums over the layers, \<open>is_reparam\<close> (\<open>is_entropy\<close>) holds iff the class of
  every layer defines \<open>reparam\<close> (\<open>entropy\<close>), \<open>is_normal\<close> iff every layer is a \<open>Normal\<close>.
\<close>

definition aggregates_ok :: "store \<Rightarrow> variational \<Rightarrow> bool" where
  "aggregates_ok s v =
     (num_factors v = sum_list (map distribution.num_factors (s (layers v))) \<and>
      num_vars v = sum_list (map distribution.num_vars (s (layers v))) \<and>
      num_params v = sum_list (map distribution.num_params (s (layers v))) \<and>
      is_reparam v = list_all (class_defines ''reparam'') (s (layers v)) \<and>
      is_normal v = list_all isinstance_Normal (s (layers v)) \<and>
      is_entropy v = list_all (class_defines ''entropy'') (s (layers v)))"

definition same_aggregates :: "variational \<Rightarrow> variational \<Rightarrow> bool" where
  "same_aggregates v w =
     (num_factors v = num_factors w \<and> num_vars v = num_vars w \<and>
      num_params v = num_params w \<and> is_reparam v = is_reparam w \<and>
      is_normal v = is_normal w \<and> is_entropy v = is_entropy w)"

text \<open>An array of shape \<open>[n, m]\<close>.\<close>

definition has_shape :: "ndarray \<Rightarrow> nat \<Rightarrow> nat \<Rightarrow> bool" where
  "has_shape xs n m =
     (length (rows xs) = n \<and> ncols xs = m \<and> list_all (\<lambda>r. length r = m) (rows xs))"

text \<open>
  The attributes of an object have the shapes its constructor gives them: \<open>num_vars\<close>
  as the constructor computes it from \<open>num_factors\<close>, one parameter (or one row of
  \<open>K\<close> parameters) per factor, and for a \<open>PointMass\<close> one factor and one parameter per
  variable.  A parameter tensor passed to a constructor is not checked there.
\<close>

definition well_shaped :: "distribution \<Rightarrow> bool" where
  "well_shaped d =
     (case attrs d of
        Bernoulli p \<Rightarrow>
          distribution.num_vars d = distribution.num_factors d \<and>
          length p = distribution.num_factors d
      | Beta alpha beta \<Rightarrow>
          distribution.num_vars d = distribution.num_factors d \<and>
          length alpha = distribution.num_factors d \<and> length beta = distribution.num_factors d
      | Dirichlet K alpha \<Rightarrow>
          distribution.num_vars d = K * distribution.num_factors d \<and>
          length alpha = distribution.num_factors d \<and> list_all (\<lambda>a. length a = K) alpha
      | InvGamma alpha beta \<Rightarrow>
          distribution.num_vars d = distribution.num_factors d \<and>
          length alpha = distribution.num_factors d \<and> length beta = distribution.num_factors d
      | Multinomial K pi' \<Rightarrow>
          distribution.num_vars d = K * distribution.num_factors d \<and>
          length pi' = distribution.num_factors d \<and> list_all (\<lambda>a. length a = K) pi'
      | Normal loc scale \<Rightarrow>
          distribution.num_vars d = distribution.num_factors d \<and>
          length loc = distribution.num_factors d \<and> length scale = distribution.num_factors d
      | PointMass params \<Rightarrow>
          distribution.num_factors d = 1 \<and> length params = distribution.num_vars d)"

definition isinstance_PointMass :: "distribution \<Rightarrow> bool" where
  "isinstance_PointMass layer = (case attrs layer of PointMass params \<Rightarrow> True | _ \<Rightarrow> False)"

text \<open>A \<open>PointMass\<close> over no variable at all, as \<open>PointMass(0)\<close> makes it.\<close>

definition empty_PointMass :: "distribution \<Rightarrow> bool" where
  "empty_PointMass d = (isinstance_PointMass d \<and> distribution.num_vars d = 0)"

text \<open>The objects that the constructors return.\<close>

inductive constructed :: "distribution \<Rightarrow> bool" where
  by_Bernoulli: "constructed (Bernoulli_init n p g)"
| by_Beta: "constructed (Beta_init n alpha beta g1 g2)"
| by_Dirichlet: "Dirichlet_init shape rows_alpha g' = Inr d \<Longrightarrow> constructed d"
| by_InvGamma: "constructed (InvGamma_init n alpha beta g1 g2)"
| by_Multinomial: "Multinomial_init fl shape pi' g' = Inr d \<Longrightarrow> constructed d"
| by_Normal: "constructed (Normal_init n loc scale g1 g2)"
| by_PointMass: "constructed (PointMass_init n params g)"

text \<open>
  The closed form of the stick-breaking construction for one row \<open>x\<close>:
  \<open>products_from fl c vs\<close> are the rounded running products of \<open>c\<close> with \<open>v\<^sub>1\<close>, \<open>v\<^sub>2\<close>,
  \<dots>, and \<open>stick fl x\<close> multiplies \<open>cumprod [1, 1 - x\<^sub>0, \<dots>]\<close> with \<open>[x\<^sub>0, \<dots>, 1]\<close>.
\<close>

fun products_from :: "(real \<Rightarrow> real) \<Rightarrow> real \<Rightarrow> real list \<Rightarrow> real list" where
  "products_from fl c [] = []"
| "products_from fl c (v # vs) = fl (c * v) # products_from fl (fl (c * v)) vs"

definition stick :: "(real \<Rightarrow> real) \<Rightarrow> real list \<Rightarrow> real list" where
  "stick fl x =
     map2 (\<lambda>a b. fl (a * b)) (products_from fl 1 (1 # map (\<lambda>v. fl (1 - v)) x)) (x @ [1])"


text \<open>
  The layer that the loop of \<open>Variational.log_prob_i\<close> reaches for the factor index
  \<open>i\<close>, if there is one.
\<close>

fun owner :: "distribution list \<Rightarrow> nat \<Rightarrow> distribution option" where
  "owner [] i = None"
| "owner (layer # rest) i =
     (if i < distribution.num_factors layer then Some layer
      else owner rest (i - distribution.num_factors layer))"

text \<open>
  Fixed inputs for evaluating the model.  In the instance \<open>stats0\<close> of \<open>edward.stats\<close> a
  density returns the point it is given (the sum of its entries, for a vector), an
  entropy the sum of its parameters and a sampler its first parameter (the sum of the
  entries, for a vector), so that a result shows which column and which parameters were
  read.  The noise sources \<open>noise0\<close> and \<open>noise00\<close> are constantly zero.
\<close>

definition stats0 :: stats where
  "stats0 =
     \<lparr>bernoulli_logpmf = (\<lambda>x p. x), bernoulli_entropy = (\<lambda>p. p), bernoulli_rvs = (\<lambda>c r p. p),
      beta_logpdf = (\<lambda>x a b. x), beta_entropy = (\<lambda>a b. a + b), beta_rvs = (\<lambda>c r a b. a),
      dirichlet_logpdf = (\<lambda>x a. sum_list x), dirichlet_entropy = (\<lambda>a. sum_list a),
      dirichlet_rvs = (\<lambda>c r k a. sum_list a),
      invgamma_logpdf = (\<lambda>x a b. x), invgamma_entropy = (\<lambda>a b. a + b),
      invgamma_rvs = (\<lambda>c r a b. a),
      multinomial_logpmf = (\<lambda>x n p. sum_list x), multinomial_entropy = (\<lambda>n p. sum_list p),
      multinomial_rvs = (\<lambda>c r k n p. sum_list p),
      norm_logpdf = (\<lambda>x l s. x), norm_entropy = (\<lambda>s. s)\<rparr>"

definition noise0 :: noise1 where
  "noise0 = (\<lambda>i. 0)"

definition noise00 :: noise2 where
  "noise00 = (\<lambda>i j. 0)"


text \<open>A \<open>PointMass\<close> over no variable.\<close>

definition PointMass0 :: distribution where
  "PointMass0 = PointMass_init 0 None noise0"

text \<open>A store in which every list is empty.\<close>

definition store0 :: store where
  "store0 = (\<lambda>r. [])"

text \<open>
  Fixed objects: a \<open>Normal\<close> of three factors, a \<open>Bernoulli\<close> of two, stores with lists of
  layers, batches.
\<close>

definition Normal3 :: distribution where
  "Normal3 = Normal_init 3 (Some [0, 0, 0]) (Some [1, 1, 1]) noise0 noise0"

definition Bernoulli2 :: distribution where
  "Bernoulli2 = Bernoulli_init 2 (Some [1 / 2, 1 / 2]) noise0"

definition store12 :: store where
  "store12 = store0(1 := [Normal3, Bernoulli2])"

definition batch5 :: ndarray where
  "batch5 = \<lparr>ncols = 5, rows = [[1, 2, 3, 1, 0], [4, 5, 6, 0, 1]]\<rparr>"

definition store02 :: store where
  "store02 = store0(2 := [PointMass0, Bernoulli2])"

definition batch2 :: ndarray where
  "batch2 = \<lparr>ncols = 2, rows = [[1, 0], [0, 1]]\<rparr>"

section \<open>Results and arrays\<close>

lemma map_result_all:
  "(\<And>x. x \<in> set xs \<Longrightarrow> f x = Inr (h x)) \<Longrightarrow> map_result f xs = Inr (map h xs)"
  by (induction xs) (simp_all add: and_then_def)

lemma map2_replicate: "length xs = n \<Longrightarrow> map2 f xs (replicate n y) = map (\<lambda>x. f x y) xs"
  by (induction xs arbitrary: n) auto

lemma map2_replicate_left: "length xs = n \<Longrightarrow> map2 f (replicate n y) xs = map (f y) xs"
  by (induction xs arbitrary: n) auto

lemma map2_same: "map2 f (map g xs) (map h xs) = map (\<lambda>x. f (g x) (h x)) xs"
  by (induction xs) auto

lemma has_shape_slice:
  assumes "has_shape xs n m" "a + k \<le> m"
  shows "has_shape (slice_cols xs a (a + k)) n k"
  using assms by (auto simp add: has_shape_def slice_cols_def list_all_iff min_def)

lemma getcol_slice_first:
  "getcol (slice_cols xs a (Suc a)) 0 = getcol (slice_cols xs a (a + Suc k)) 0"
  by (auto simp add: getcol_def slice_cols_def min_def)

section \<open>The aggregates of a Variational\<close>

lemma init_aggregates: "aggregates_ok s (Variational_init s r)"
  by (simp add: aggregates_ok_def Variational_init_def)

lemma add_aggregates:
  assumes "aggregates_ok s v"
  shows "aggregates_ok (fst (Variational_add s v layer)) (snd (Variational_add s v layer))"
  using assms by (auto simp add: aggregates_ok_def Variational_add_def)

lemma add_recomputed:
  assumes "aggregates_ok s v"
  shows "same_aggregates (snd (Variational_add s v layer))
           (Variational_init (fst (Variational_add s v layer)) (layers v))"
  using assms
  by (auto simp add: aggregates_ok_def same_aggregates_def Variational_add_def
      Variational_init_def)

text \<open>
  Seen from one object alone: the constructor computes the aggregates of whatever list it
  is given, and \<open>add(layer)\<close> on an object whose aggregates are right appends the layer to
  its list and leaves the aggregates right, equal to what the constructor computes from
  scratch over the extended list.
\<close>

lemma own_add_keeps_aggregates:
  "aggregates_ok s (Variational_init s r) \<and>
   (aggregates_ok s v \<longrightarrow>
      (case Variational_add s v layer of (s', v') \<Rightarrow>
         layers v' = layers v \<and> s' = s(layers v := s (layers v) @ [layer]) \<and>
         aggregates_ok s' v' \<and> same_aggregates v' (Variational_init s' (layers v'))))"
  using init_aggregates[of s r] add_aggregates[of s v layer] add_recomputed[of s v layer]
  by (auto simp add: Variational_add_def split: prod.splits)

text \<open>
  C1.  The aggregates are not an invariant of every \<open>Variational\<close>: the objects made by
  \<open>Variational()\<close> hold one and the same list, that of the default argument, and an
  \<open>add\<close> on one of them extends the list of the others, whose aggregates stay as they
  were.  First, an object that was only constructed: after \<open>add(Normal3)\<close> on another
  one its list holds a layer and its \<open>num_factors\<close> is \<open>0\<close>.  Second, the object \<open>a\<close> after
  \<open>a.add(Normal3)\<close>, when a later \<open>Variational()\<close> takes \<open>add(Bernoulli2)\<close>: the list of \<open>a\<close>
  holds both layers, with five factors and a layer without \<open>reparam\<close>, while \<open>a\<close> has
  \<open>num_factors = 3\<close>, \<open>is_reparam\<close> and \<open>is_normal\<close>; and \<open>a.log_prob_i(3, xs)\<close>, with
  \<open>3 = a.num_factors\<close>, returns a vector.
\<close>

theorem shared_default_layers:
  "(case Variational_add store0 (Variational_init store0 default_layers) Normal3 of
      (s1, a) \<Rightarrow>
        aggregates_ok store0 (Variational_init store0 default_layers) \<and>
        layers (Variational_init store0 default_layers) = layers a \<and>
        s1 (layers (Variational_init store0 default_layers)) = [Normal3] \<and>
        num_factors (Variational_init store0 default_layers) = 0 \<and>
        \<not> aggregates_ok s1 (Variational_init store0 default_layers)) \<and>
   (case Variational_add store0 (Variational_init store0 default_layers) Normal3 of
      (s1, a) \<Rightarrow>
    case Variational_add s1 (Variational_init s1 default_layers) Bernoulli2 of
      (s2, b) \<Rightarrow>
        aggregates_ok s1 a \<and> aggregates_ok s2 b \<and> layers a = layers b \<and>
        s2 (layers a) = [Normal3, Bernoulli2] \<and> num_factors a = 3 \<and>
        is_reparam a \<and> is_normal a \<and> \<not> aggregates_ok s2 a \<and>
        Variational_log_prob_i stats0 s2 a 3 batch5 = Inr [1, 0])"
  by (simp add: Variational_add_def Variational_init_def store0_def aggregates_ok_def
      Normal3_def Bernoulli2_def Normal_init_def Bernoulli_init_def class_defines_def
      isinstance_Normal_def Variational_log_prob_i_def log_prob_i_def Bernoulli_log_prob_i_def
      getcol_def slice_cols_def batch5_def getitem_def and_then_def stats0_def)

section \<open>Routing a factor index to its layer\<close>

lemma Bernoulli_first_column:
  "log_prob_i st (Bernoulli_init n p g) 0 (slice_cols xs a (Suc a)) =
   log_prob_i st (Bernoulli_init n p g) 0 (slice_cols xs a (a + Suc k))"
  using getcol_slice_first[of xs a k]
  by (simp add: log_prob_i_def Bernoulli_init_def Bernoulli_log_prob_i_def)

text \<open>
  With the layers \<open>Normal\<close> of three factors and \<open>Bernoulli\<close> of two, the loop passes the
  second layer its whole slice of columns, \<open>xs[:, 3:5]\<close>, and the local index \<open>0\<close>.
\<close>

lemma second_layer_call:
  "log_prob_i_loop st [Normal_init 3 loc scale g1 g2, Bernoulli_init 2 p g] 3 0 0 xs =
   log_prob_i st (Bernoulli_init 2 p g) 0 (slice_cols xs 3 5)"
  by (simp add: Normal_init_def Bernoulli_init_def)

text \<open>
  C2.  For the \<open>Variational\<close> of a \<open>Normal\<close> with three factors followed by a \<open>Bernoulli\<close>
  with two, built by two calls of \<open>add\<close> on an empty list or constructed from the list of
  both: \<open>num_factors\<close> and \<open>num_vars\<close> are \<open>5\<close>, \<open>is_reparam\<close> is false, and
  \<open>log_prob_i(3, xs)\<close> is the result of the \<open>Bernoulli\<close> layer for its factor \<open>0\<close> on the
  column slice \<open>xs[:, 3:4]\<close>.  (The layer is called with \<open>xs[:, 3:5]\<close>, of which it reads
  the first column, the same column as that of \<open>xs[:, 3:4]\<close>.)
\<close>

theorem Normal3_Bernoulli2:
  "(s r = [] \<longrightarrow>
     (case Variational_add s (Variational_init s r) (Normal_init 3 loc scale g1 g2) of
        (s1, v1) \<Rightarrow>
      case Variational_add s1 v1 (Bernoulli_init 2 p g) of
        (s2, v2) \<Rightarrow>
          num_factors v2 = 5 \<and> num_vars v2 = 5 \<and> \<not> is_reparam v2 \<and>
          Variational_log_prob_i st s2 v2 3 xs =
            log_prob_i st (Bernoulli_init 2 p g) 0 (slice_cols xs 3 4))) \<and>
   (s r = [Normal_init 3 loc scale g1 g2, Bernoulli_init 2 p g] \<longrightarrow>
      num_factors (Variational_init s r) = 5 \<and> num_vars (Variational_init s r) = 5 \<and>
      \<not> is_reparam (Variational_init s r) \<and>
      Variational_log_prob_i st s (Variational_init s r) 3 xs =
        log_prob_i st (Bernoulli_init 2 p g) 0 (slice_cols xs 3 4))"
proof -
  let ?L1 = "Normal_init 3 loc scale g1 g2" and ?L2 = "Bernoulli_init 2 p g"
  have nf: "distribution.num_factors ?L1 = 3" "distribution.num_vars ?L1 = 3"
    "distribution.num_factors ?L2 = 2" "distribution.num_vars ?L2 = 2"
    by (simp_all add: Normal_init_def Bernoulli_init_def)
  have rp: "\<not> class_defines ''reparam'' ?L2"
    by (simp add: class_defines_def Bernoulli_init_def)
  have col: "log_prob_i st ?L2 0 (slice_cols xs 3 5) = log_prob_i st ?L2 0 (slice_cols xs 3 4)"
    using Bernoulli_first_column[of st 2 p g xs 3 1] by (simp add: numeral_eq_Suc)
  show ?thesis
    using second_layer_call[of st loc scale g1 g2 p g xs] col rp
    by (auto simp add: Variational_add_def Variational_init_def Variational_log_prob_i_def nf
        split: prod.splits)
qed

theorem Normal3_Bernoulli2_witness:
  "store0 default_layers = [] \<and>
   (case Variational_add store0 (Variational_init store0 default_layers) Normal3 of
      (s1, v1) \<Rightarrow>
    case Variational_add s1 v1 Bernoulli2 of
      (s2, v2) \<Rightarrow>
        num_factors v2 = 5 \<and> num_vars v2 = 5 \<and> \<not> is_reparam v2 \<and>
        Variational_log_prob_i stats0 s2 v2 3 batch5 =
          log_prob_i stats0 Bernoulli2 0 (slice_cols batch5 3 4)) \<and>
   store12 1 = [Normal3, Bernoulli2] \<and>
   num_factors (Variational_init store12 1) = 5 \<and>
   num_vars (Variational_init store12 1) = 5 \<and>
   \<not> is_reparam (Variational_init store12 1) \<and>
   Variational_log_prob_i stats0 store12 (Variational_init store12 1) 3 batch5 =
     log_prob_i stats0 Bernoulli2 0 (slice_cols batch5 3 4) \<and>
   log_prob_i stats0 Bernoulli2 0 (slice_cols batch5 3 4) = Inr [1, 0]"
proof -
  have e: "store0 default_layers = []" "store12 1 = [Normal3, Bernoulli2]"
    by (simp_all add: store0_def store12_def)
  have v: "log_prob_i stats0 Bernoulli2 0 (slice_cols batch5 3 4) = Inr [1, 0]"
    by (simp add: log_prob_i_def Bernoulli2_def Bernoulli_init_def Bernoulli_log_prob_i_def
        getcol_def slice_cols_def batch5_def getitem_def and_then_def stats0_def)
  show ?thesis
    using e v
      Normal3_Bernoulli2[where s = store0 and r = default_layers and loc = "Some [0, 0, 0]"
        and scale = "Some [1, 1, 1]" and ?g1.0 = noise0 and ?g2.0 = noise0
        and p = "Some [1 / 2, 1 / 2]" and g = noise0 and st = stats0 and xs = batch5]
      Normal3_Bernoulli2[where s = store12 and r = 1 and loc = "Some [0, 0, 0]"
        and scale = "Some [1, 1, 1]" and ?g1.0 = noise0 and ?g2.0 = noise0
        and p = "Some [1 / 2, 1 / 2]" and g = noise0 and st = stats0 and xs = batch5]
    unfolding Normal3_def Bernoulli2_def
    by simp
qed

section \<open>Index errors and the length of the result\<close>

lemma layer_index_error:
  "distribution.num_factors d \<le> i \<Longrightarrow> log_prob_i st d i xs = Inl IndexError"
  by (simp add: log_prob_i_def Bernoulli_log_prob_i_def Beta_log_prob_i_def
      Dirichlet_log_prob_i_def InvGamma_log_prob_i_def Multinomial_log_prob_i_def
      Normal_log_prob_i_def PointMass_log_prob_i_def split: variant.splits)

lemma layer_returns:
  assumes "well_shaped d" "\<not> empty_PointMass d" "has_shape xs n (distribution.num_vars d)"
    "i < distribution.num_factors d"
  shows "\<exists>vec. log_prob_i st d i xs = Inr vec \<and> length vec = n"
  using assms
  by (auto simp add: log_prob_i_def Bernoulli_log_prob_i_def Beta_log_prob_i_def
      Dirichlet_log_prob_i_def InvGamma_log_prob_i_def Multinomial_log_prob_i_def
      Normal_log_prob_i_def PointMass_log_prob_i_def well_shaped_def empty_PointMass_def
      isinstance_PointMass_def has_shape_def getcol_def getitem_def and_then_def slice_cols_def
      split: variant.splits)

lemma empty_PointMass_raises:
  assumes "empty_PointMass d" "ncols xs = 0"
  shows "log_prob_i st d i xs = Inl IndexError"
  using assms
  by (auto simp add: log_prob_i_def PointMass_log_prob_i_def empty_PointMass_def
      isinstance_PointMass_def getcol_def and_then_def split: variant.splits)

lemma loop_index_error:
  "sum_list (map distribution.num_factors ls) \<le> i \<Longrightarrow>
   log_prob_i_loop st ls i a b xs = Inl IndexError"
  by (induction ls arbitrary: i a b) (auto simp add: Let_def)

lemma owner_in_range:
  "owner ls i = Some d \<Longrightarrow> i < sum_list (map distribution.num_factors ls)"
proof (induction ls arbitrary: i)
  case Nil
  then show ?case by simp
next
  case (Cons l ls)
  show ?case
  proof (cases "i < distribution.num_factors l")
    case True
    then show ?thesis by simp
  next
    case False
    with Cons.prems have "owner ls (i - distribution.num_factors l) = Some d" by simp
    from Cons.IH[OF this] False show ?thesis by simp
  qed
qed

lemma in_range_owner:
  "i < sum_list (map distribution.num_factors ls) \<Longrightarrow> \<exists>d. owner ls i = Some d \<and> d \<in> set ls"
proof (induction ls arbitrary: i)
  case Nil
  then show ?case by simp
next
  case (Cons l ls)
  show ?case
  proof (cases "i < distribution.num_factors l")
    case True
    then show ?thesis by simp
  next
    case False
    with Cons.prems have "i - distribution.num_factors l < sum_list (map distribution.num_factors ls)"
      by simp
    from Cons.IH[OF this] False show ?thesis by auto
  qed
qed

lemma loop_returns:
  assumes "list_all well_shaped ls" "has_shape xs n m"
    "a + sum_list (map distribution.num_vars ls) \<le> m"
    "owner ls i = Some d" "\<not> empty_PointMass d"
  shows "\<exists>vec. log_prob_i_loop st ls i a a xs = Inr vec \<and> length vec = n"
  using assms
proof (induction ls arbitrary: i a)
  case Nil
  then show ?case by simp
next
  case (Cons l ls)
  show ?case
  proof (cases "i < distribution.num_factors l")
    case True
    with Cons.prems have l: "l = d" by simp
    have "has_shape (slice_cols xs a (a + distribution.num_vars l)) n (distribution.num_vars l)"
      using Cons.prems by (intro has_shape_slice) auto
    with True Cons.prems l show ?thesis
      using layer_returns[of l "slice_cols xs a (a + distribution.num_vars l)" n i st]
      by (simp add: Let_def)
  next
    case False
    with Cons.prems Cons.IH[of "a + distribution.num_vars l" "i - distribution.num_factors l"]
    show ?thesis by (simp add: Let_def add.assoc)
  qed
qed

lemma loop_empty_PointMass:
  assumes "owner ls i = Some d" "empty_PointMass d"
  shows "log_prob_i_loop st ls i a a xs = Inl IndexError"
  using assms
proof (induction ls arbitrary: i a)
  case Nil
  then show ?case by simp
next
  case (Cons l ls)
  show ?case
  proof (cases "i < distribution.num_factors l")
    case True
    with Cons.prems have l: "l = d" by simp
    then have "distribution.num_vars l = 0"
      using Cons.prems(2) by (simp add: empty_PointMass_def)
    moreover have "ncols (slice_cols xs a a) = 0"
      by (simp add: slice_cols_def)
    ultimately show ?thesis
      using True l Cons.prems(2) empty_PointMass_raises[of d "slice_cols xs a a" st i]
      by (simp add: Let_def)
  next
    case False
    with Cons.prems Cons.IH[of "i - distribution.num_factors l" "a + distribution.num_vars l"]
    show ?thesis by (simp add: Let_def)
  qed
qed

text \<open>
  C3 (as amended).  For each concrete variant, \<open>log_prob_i(i, xs)\<close> with
  \<open>i \<ge> num_factors\<close> raises \<open>IndexError\<close>, and so does the \<open>log_prob_i\<close> of a
  \<open>Variational\<close> whose aggregates are right.  For \<open>i < num_factors\<close> and a batch \<open>xs\<close> of
  shape \<open>[n, num_vars]\<close> the result is a vector of length \<open>n\<close>: for every object with the
  shapes of its constructor that is not a \<open>PointMass\<close> over no variable, and for every
  \<open>Variational\<close> of well-shaped layers when the layer that holds the factor \<open>i\<close> is not
  such a \<open>PointMass\<close>.  For a \<open>PointMass\<close> over no variable, alone or as the layer that
  holds the factor \<open>i\<close>, the call raises.  Every \<open>i < num_factors\<close> of a \<open>Variational\<close> is
  held by one of its layers.
\<close>

theorem log_prob_i_index:
  "(distribution.num_factors d \<le> i \<longrightarrow> log_prob_i st d i xs = Inl IndexError) \<and>
   (aggregates_ok s v \<and> num_factors v \<le> i \<longrightarrow>
      Variational_log_prob_i st s v i xs = Inl IndexError) \<and>
   (well_shaped d \<and> \<not> empty_PointMass d \<and> has_shape xs n (distribution.num_vars d) \<and>
    i < distribution.num_factors d \<longrightarrow>
      (\<exists>vec. log_prob_i st d i xs = Inr vec \<and> length vec = n)) \<and>
   (aggregates_ok s v \<and> list_all well_shaped (s (layers v)) \<and> has_shape xs n (num_vars v) \<and>
    owner (s (layers v)) i = Some l \<and> \<not> empty_PointMass l \<longrightarrow>
      (\<exists>vec. Variational_log_prob_i st s v i xs = Inr vec \<and> length vec = n)) \<and>
   (empty_PointMass d \<and> has_shape xs n (distribution.num_vars d) \<longrightarrow>
      isl (log_prob_i st d i xs)) \<and>
   (owner (s (layers v)) i = Some l \<and> empty_PointMass l \<longrightarrow>
      isl (Variational_log_prob_i st s v i xs)) \<and>
   (aggregates_ok s v \<and> i < num_factors v \<longrightarrow>
      (\<exists>l. owner (s (layers v)) i = Some l \<and> l \<in> set (s (layers v))))"
proof (intro conjI impI)
  show "log_prob_i st d i xs = Inl IndexError" if "distribution.num_factors d \<le> i"
    using that by (rule layer_index_error)
  show "Variational_log_prob_i st s v i xs = Inl IndexError"
    if "aggregates_ok s v \<and> num_factors v \<le> i"
    using that by (simp add: Variational_log_prob_i_def aggregates_ok_def loop_index_error)
  show "\<exists>vec. log_prob_i st d i xs = Inr vec \<and> length vec = n"
    if "well_shaped d \<and> \<not> empty_PointMass d \<and> has_shape xs n (distribution.num_vars d) \<and>
        i < distribution.num_factors d"
    using that by (simp add: layer_returns)
  show "\<exists>vec. Variational_log_prob_i st s v i xs = Inr vec \<and> length vec = n"
    if "aggregates_ok s v \<and> list_all well_shaped (s (layers v)) \<and>
        has_shape xs n (num_vars v) \<and> owner (s (layers v)) i = Some l \<and> \<not> empty_PointMass l"
  proof -
    from that have "0 + sum_list (map distribution.num_vars (s (layers v))) \<le> num_vars v"
      by (simp add: aggregates_ok_def)
    with that show ?thesis
      unfolding Variational_log_prob_i_def
      by (intro loop_returns[where m = "num_vars v" and d = l]) simp_all
  qed
  show "isl (log_prob_i st d i xs)"
    if "empty_PointMass d \<and> has_shape xs n (distribution.num_vars d)"
    using that empty_PointMass_raises[of d xs st i]
    by (simp add: empty_PointMass_def has_shape_def)
  show "isl (Variational_log_prob_i st s v i xs)"
    if "owner (s (layers v)) i = Some l \<and> empty_PointMass l"
    using that loop_empty_PointMass[of "s (layers v)" i l st 0 xs]
    by (simp add: Variational_log_prob_i_def)
  show "\<exists>l. owner (s (layers v)) i = Some l \<and> l \<in> set (s (layers v))"
    if "aggregates_ok s v \<and> i < num_factors v"
    using that in_range_owner[of i "s (layers v)"] by (simp add: aggregates_ok_def)
qed

theorem log_prob_i_index_witness:
  "log_prob_i stats0 Bernoulli2 2 batch5 = Inl IndexError \<and>
   Variational_log_prob_i stats0 store12 (Variational_init store12 1) 5 batch5 = Inl IndexError \<and>
   (\<exists>vec. log_prob_i stats0 Bernoulli2 1 batch2 = Inr vec \<and> length vec = 2) \<and>
   owner (store02 (layers (Variational_init store02 2))) 1 = Some Bernoulli2 \<and>
   (\<exists>vec. Variational_log_prob_i stats0 store02 (Variational_init store02 2) 1 batch2 = Inr vec \<and>
      length vec = 2) \<and>
   empty_PointMass PointMass0 \<and>
   isl (log_prob_i stats0 PointMass0 0 \<lparr>ncols = 0, rows = [[], []]\<rparr>) \<and>
   owner (store02 (layers (Variational_init store02 2))) 0 = Some PointMass0 \<and>
   isl (Variational_log_prob_i stats0 store02 (Variational_init store02 2) 0 batch2) \<and>
   (\<exists>l. owner (store12 (layers (Variational_init store12 1))) 4 = Some l \<and>
      l \<in> set (store12 (layers (Variational_init store12 1))))"
proof -
  let ?v = "Variational_init store12 1" and ?w = "Variational_init store02 2"
  let ?e = "\<lparr>ncols = 0, rows = [[], []]\<rparr> :: ndarray"
  have agg: "aggregates_ok store12 ?v" "aggregates_ok store02 ?w"
    by (rule init_aggregates)+
  have nf: "num_factors ?v = 5" "num_vars ?w = 2" "distribution.num_factors Bernoulli2 = 2"
    "distribution.num_vars Bernoulli2 = 2" "distribution.num_factors PointMass0 = 1"
    "distribution.num_vars PointMass0 = 0"
    by (simp_all add: Variational_init_def store12_def store02_def store0_def Normal3_def
        Bernoulli2_def PointMass0_def Normal_init_def Bernoulli_init_def PointMass_init_def)
  have ws: "well_shaped Bernoulli2" "well_shaped PointMass0"
    "\<not> empty_PointMass Bernoulli2" "empty_PointMass PointMass0"
    by (simp_all add: well_shaped_def empty_PointMass_def isinstance_PointMass_def
        PointMass0_def Bernoulli2_def PointMass_init_def Bernoulli_init_def random_normal1_def)
  have sh: "has_shape batch2 2 2" "has_shape ?e 2 0"
    by (simp_all add: has_shape_def batch2_def)
  have ls: "store02 (layers ?w) = [PointMass0, Bernoulli2]"
    by (simp add: Variational_init_def store02_def)
  have ow: "owner [PointMass0, Bernoulli2] 1 = Some Bernoulli2"
    "owner [PointMass0, Bernoulli2] 0 = Some PointMass0"
    by (simp_all add: nf)
  have a: "log_prob_i stats0 Bernoulli2 2 batch5 = Inl IndexError"
    using log_prob_i_index[where d = Bernoulli2 and i = 2 and st = stats0 and xs = batch5]
      nf by simp
  have b: "Variational_log_prob_i stats0 store12 ?v 5 batch5 = Inl IndexError"
    using log_prob_i_index[where s = store12 and v = ?v and i = 5 and st = stats0
        and xs = batch5] agg nf by simp
  have c: "\<exists>vec. log_prob_i stats0 Bernoulli2 1 batch2 = Inr vec \<and> length vec = 2"
    using log_prob_i_index[where d = Bernoulli2 and i = 1 and st = stats0 and xs = batch2
        and n = 2] ws sh nf by simp
  have d: "\<exists>vec. Variational_log_prob_i stats0 store02 ?w 1 batch2 = Inr vec \<and> length vec = 2"
    using log_prob_i_index[where s = store02 and v = ?w and i = 1 and st = stats0
        and xs = batch2 and n = 2 and l = Bernoulli2] agg ws sh nf ls ow by simp
  have e: "isl (log_prob_i stats0 PointMass0 0 ?e)"
    using log_prob_i_index[where d = PointMass0 and i = 0 and st = stats0 and xs = ?e
        and n = 2] ws sh nf by simp
  have f: "isl (Variational_log_prob_i stats0 store02 ?w 0 batch2)"
    using log_prob_i_index[where s = store02 and v = ?w and i = 0 and st = stats0
        and xs = batch2 and l = PointMass0] ws ls ow by simp
  have g: "\<exists>l. owner (store12 (layers ?v)) 4 = Some l \<and> l \<in> set (store12 (layers ?v))"
    using log_prob_i_index[where s = store12 and v = ?v and i = 4] agg nf by simp
  show ?thesis
    using a b c d e f g ws(4) ls ow by simp
qed

text \<open>
  A \<open>PointMass\<close> over no variable has one factor, and a batch for it has no column:
  \<open>log_prob_i(0, xs)\<close> raises although \<open>0 < num_factors\<close>.
\<close>

theorem log_prob_i_empty_PointMass:
  "well_shaped (PointMass_init 0 None noise0) \<and>
   has_shape \<lparr>ncols = 0, rows = [[], []]\<rparr> 2 (distribution.num_vars (PointMass_init 0 None noise0)) \<and>
   0 < distribution.num_factors (PointMass_init 0 None noise0) \<and>
   log_prob_i stats0 (PointMass_init 0 None noise0) 0 \<lparr>ncols = 0, rows = [[], []]\<rparr> =
     Inl IndexError"
  by (simp add: well_shaped_def has_shape_def PointMass_init_def random_normal1_def
      log_prob_i_def PointMass_log_prob_i_def getcol_def and_then_def)

section \<open>Rounding to single precision\<close>


lemma nearest_even_int: "nearest_even (of_int m) = m"
  by (simp add: nearest_even_def Let_def)


















section \<open>The default parameters of Multinomial\<close>

text \<open>
  \<open>cumprod\<close> returns the running products of its argument, and a row of the default
  \<open>pi\<close> is the stick \<open>stick fl x\<close> of the row \<open>x\<close> of sigmoids, provided there is a row:
  without one \<open>tf.pack\<close> has nothing to pack and the constructor raises.
\<close>

lemma cumprod_loop_products:
  "cumprod_loop fl prev vals out = out @ products_from fl prev vals"
  by (induction vals arbitrary: prev out) (simp_all add: Let_def)

lemma cumprod_Cons: "cumprod fl (v # vs) = Inr (products_from fl 1 (v # vs))"
  by (simp add: cumprod_def cumprod_loop_products tf_pack_def)

lemma length_products_from: "length (products_from fl c vs) = length vs"
  by (induction vs arbitrary: c) simp_all

lemma length_stick: "length (stick fl x) = Suc (length x)"
  by (simp add: stick_def length_products_from)






lemma default_pi_stick:
  assumes "length pu = n" "0 < n"
  shows "default_pi fl n K pu =
     Inr (map (\<lambda>u. stick fl (map (\<lambda>w. fl (sigmoid w))
            (map2 (\<lambda>a b. fl (a + b)) (map (\<lambda>j. - fl (ln (real (K - 1 - j)))) [0..<K - 1]) u)))
          pu)"
proof -
  let ?eq = "map (\<lambda>j. - fl (ln (real (K - 1 - j)))) [0..<K - 1]"
  let ?x = "map (\<lambda>u. map (\<lambda>w. fl (sigmoid w)) (map2 (\<lambda>a b. fl (a + b)) ?eq u)) pu"
  let ?piu = "map (\<lambda>r. 1 # map (\<lambda>v. fl (1 - v)) r) ?x"
  have len: "length ?x = n" using assms by simp
  have pil: "map2 (@) ?x (replicate n [1]) = map (\<lambda>r. r @ [1]) ?x"
    using len by (rule map2_replicate)
  have piu: "map2 (@) (replicate n [1]) (map (map (\<lambda>v. fl (1 - v))) ?x) = ?piu"
    using len by (simp add: map2_replicate_left comp_def)
  have S: "map_result (cumprod fl) ?piu = Inr (map (\<lambda>w. products_from fl 1 w) ?piu)"
    by (rule map_result_all) (auto simp add: cumprod_Cons)
  have ne: "map (\<lambda>w. products_from fl 1 w) ?piu \<noteq> []"
    using assms by auto
  have "default_pi fl n K pu =
      Inr (map2 (map2 (\<lambda>a b. fl (a * b))) (map (\<lambda>w. products_from fl 1 w) ?piu)
             (map (\<lambda>r. r @ [1]) ?x))"
    unfolding default_pi_def Let_def pil piu S and_then_def using ne by (simp add: tf_pack_def)
  also have "\<dots> = Inr (map (stick fl) ?x)"
    by (simp only: map_map comp_def map2_same stick_def)
  finally show ?thesis by (simp add: comp_def)
qed

lemma default_pi_no_factor: "default_pi fl 0 K pu = Inl LibraryError"
  by (simp add: default_pi_def Let_def and_then_def tf_pack_def)












text \<open>
  C5 (as amended).  Constructing a \<open>Multinomial\<close> whose shape ends in \<open>K = 1\<close> raises
  \<open>ValueError\<close> with the message that names \<open>Bernoulli\<close>, whatever the number of factors
  and whether or not \<open>pi\<close> is given.  With \<open>K \<ge> 2\<close> the constructor returns an object
  when \<open>pi\<close> is given or \<open>num_factors \<ge> 1\<close>; with \<open>K \<ge> 2\<close>, no \<open>pi\<close> and
  \<open>num_factors = 0\<close> it raises, in \<open>tf.pack\<close>.  The rounding \<open>fl\<close> plays no part.
\<close>

theorem Multinomial_K1_rejected:
  "(shape \<noteq> [] \<and> last shape = 1 \<longrightarrow>
      Multinomial_init fl shape pi' g =
        Inl (ValueError ''Multinomial is not supported for K=1. Use Bernoulli.'')) \<and>
   (shape \<noteq> [] \<and> 2 \<le> last shape \<and> (pi' \<noteq> None \<or> 1 \<le> hd shape) \<longrightarrow>
      (\<exists>d. Multinomial_init fl shape pi' g = Inr d)) \<and>
   (shape \<noteq> [] \<and> 2 \<le> last shape \<and> pi' = None \<and> hd shape = 0 \<longrightarrow>
      Multinomial_init fl shape pi' g = Inl LibraryError)"
proof (intro conjI impI)
  show "Multinomial_init fl shape pi' g =
      Inl (ValueError ''Multinomial is not supported for K=1. Use Bernoulli.'')"
    if "shape \<noteq> [] \<and> last shape = 1"
    using that by (simp add: Multinomial_init_def)
  show "\<exists>d. Multinomial_init fl shape pi' g = Inr d"
    if a: "shape \<noteq> [] \<and> 2 \<le> last shape \<and> (pi' \<noteq> None \<or> 1 \<le> hd shape)"
  proof (cases pi')
    case None
    with a have n: "0 < hd shape" by simp
    have "length (random_normal2 g (hd shape) (last shape - 1)) = hd shape"
      by (simp add: random_normal2_def)
    from default_pi_stick[OF this n, of fl "last shape"] a None
    show ?thesis
      by (simp add: Multinomial_init_def Let_def and_then_def)
  next
    case (Some v)
    with a show ?thesis
      by (simp add: Multinomial_init_def Let_def and_then_def)
  qed
  show "Multinomial_init fl shape pi' g = Inl LibraryError"
    if "shape \<noteq> [] \<and> 2 \<le> last shape \<and> pi' = None \<and> hd shape = 0"
    using that by (simp add: Multinomial_init_def Let_def default_pi_no_factor and_then_def)
qed

theorem Multinomial_K1_rejected_witness:
  "Multinomial_init round32 [4, 1] None noise00 =
     Inl (ValueError ''Multinomial is not supported for K=1. Use Bernoulli.'') \<and>
   Multinomial_init round32 [1] (Some [[1]]) noise00 =
     Inl (ValueError ''Multinomial is not supported for K=1. Use Bernoulli.'') \<and>
   (\<exists>d. Multinomial_init round32 [4, 3] None noise00 = Inr d) \<and>
   (\<exists>d. Multinomial_init round32 [1, 2] (Some [[1 / 4, 3 / 4]]) noise00 = Inr d) \<and>
   Multinomial_init round32 [0, 4] None noise00 = Inl LibraryError"
  using Multinomial_K1_rejected[where fl = round32 and shape = "[4, 1]" and pi' = None and g = noise00]
    Multinomial_K1_rejected[where fl = round32 and shape = "[1]" and pi' = "Some [[1]]" and g = noise00]
    Multinomial_K1_rejected[where fl = round32 and shape = "[4, 3]" and pi' = None and g = noise00]
    Multinomial_K1_rejected[where fl = round32 and shape = "[1, 2]" and pi' = "Some [[1 / 4, 3 / 4]]"
      and g = noise00]
    Multinomial_K1_rejected[where fl = round32 and shape = "[0, 4]" and pi' = None and g = noise00]
  by simp


text \<open>
  The shape \<open>[0, 3]\<close> has \<open>K = 3 \<ge> 2\<close>, and the constructor raises.
\<close>

theorem Multinomial_no_factor_raises:
  "Multinomial_init round32 [0, 3] None noise00 = Inl LibraryError"
  by (simp add: Multinomial_init_def Let_def default_pi_no_factor and_then_def)

text \<open>
  The objects that the constructors make with their default parameters have the shapes
  that \<open>well_shaped\<close> asks for.
\<close>

lemma default_well_shaped:
  "well_shaped (Bernoulli_init n None g)"
  "well_shaped (Beta_init n None None g1 g2)"
  "well_shaped (InvGamma_init n None None g1 g2)"
  "well_shaped (Normal_init n None None g1 g2)"
  "well_shaped (PointMass_init n None g)"
  "Dirichlet_init shape None g' = Inr d \<Longrightarrow> well_shaped d"
  by (auto simp add: well_shaped_def Bernoulli_init_def Beta_init_def InvGamma_init_def
      Normal_init_def PointMass_init_def Dirichlet_init_def random_normal1_def
      random_normal2_def Let_def list_all_iff split: if_splits)

lemma default_Multinomial_well_shaped:
  assumes "Multinomial_init fl shape None g = Inr d"
  shows "well_shaped d"
proof -
  let ?pu = "random_normal2 g (hd shape) (last shape - 1)"
  from assms have sh: "shape \<noteq> []" and K: "last shape \<noteq> 1" "last shape \<noteq> 0"
    by (auto simp add: Multinomial_init_def Let_def and_then_def split: if_splits)
  with assms obtain P where P: "default_pi fl (hd shape) (last shape) ?pu = Inr P"
    and d: "attrs d = Multinomial (last shape) P" "distribution.num_factors d = hd shape"
      "distribution.num_vars d = last shape * hd shape"
    by (auto simp add: Multinomial_init_def Let_def and_then_def split: sum.splits)
  from P have n: "0 < hd shape"
    by (cases "hd shape") (simp_all add: default_pi_no_factor)
  have len: "length ?pu = hd shape" "\<And>u. u \<in> set ?pu \<Longrightarrow> length u = last shape - 1"
    by (auto simp add: random_normal2_def)
  from P K len(2) have "length P = hd shape \<and> list_all (\<lambda>a. length a = last shape) P"
    unfolding default_pi_stick[OF len(1) n]
    by (auto simp add: list_all_iff length_stick random_normal2_def)
  with d show ?thesis
    by (simp add: well_shaped_def)
qed

section \<open>The two ways of sampling\<close>

text \<open>
  On an object with the shapes of its constructor, \<open>sample(size)\<close> of every class
  returns an array of shape \<open>[size, num_vars]\<close>, for \<open>size \<ge> 1\<close>.
\<close>

lemma for_range_invariant:
  assumes "\<And>d x. d \<in> set ds \<Longrightarrow> P x \<Longrightarrow> \<exists>y. body d x = Inr y \<and> P y" and "P x"
  shows "\<exists>y. for_range ds body x = Inr y \<and> P y"
  using assms
proof (induction ds arbitrary: x)
  case Nil
  then show ?case by simp
next
  case (Cons d ds)
  from Cons.prems(1)[of d x] Cons.prems(2) obtain y where y: "body d x = Inr y" "P y"
    by auto
  from Cons.IH[of y] Cons.prems(1) y(2) obtain z where "for_range ds body y = Inr z" "P z"
    by auto
  with y show ?case by (simp add: and_then_def)
qed

lemma has_shape_zeros: "has_shape (zeros sz n) sz n"
  by (simp add: has_shape_def zeros_def list_all_iff)

lemma has_shape_setcol:
  assumes "has_shape x sz n" "length c = sz"
  shows "has_shape (setcol x d c) sz n"
  using assms by (auto simp add: has_shape_def setcol_def list_all_iff set_zip)

lemma has_shape_setblock:
  assumes "has_shape x sz n" "length b = sz" "list_all (\<lambda>v. length v = K) b" "start + K \<le> n"
  shows "has_shape (setblock x start b) sz n"
  using assms by (auto simp add: has_shape_def setblock_def list_all_iff set_zip)

lemma sample_shape:
  assumes "well_shaped d" and "1 \<le> sz"
  shows "\<exists>a. sample st g d sz = Inr a \<and> has_shape a sz (distribution.num_vars d)"
proof (cases "attrs d")
  case (Bernoulli p)
  with assms(1) have len: "length p = distribution.num_vars d"
    by (simp add: well_shaped_def)
  have "\<exists>y. for_range [0..<distribution.num_vars d]
       (\<lambda>k x. and_then (getitem p k) (\<lambda>p_d.
          Inr (setcol x k (map (\<lambda>r. bernoulli_rvs st k r p_d) [0..<sz]))))
       (zeros sz (distribution.num_vars d)) = Inr y \<and> has_shape y sz (distribution.num_vars d)"
    by (rule for_range_invariant)
      (auto simp add: getitem_def and_then_def len has_shape_setcol has_shape_zeros)
  with Bernoulli show ?thesis by (simp add: sample_def Bernoulli_sample_def)
next
  case (Beta alpha beta)
  with assms(1) have len: "length alpha = distribution.num_vars d" "length beta = distribution.num_vars d"
    by (simp_all add: well_shaped_def)
  have "\<exists>y. for_range [0..<distribution.num_vars d]
       (\<lambda>k x. and_then (getitem alpha k) (\<lambda>a. and_then (getitem beta k) (\<lambda>b.
          Inr (setcol x k (map (\<lambda>r. beta_rvs st k r a b) [0..<sz])))))
       (zeros sz (distribution.num_vars d)) = Inr y \<and> has_shape y sz (distribution.num_vars d)"
    by (rule for_range_invariant)
      (auto simp add: getitem_def and_then_def len has_shape_setcol has_shape_zeros)
  with Beta show ?thesis by (simp add: sample_def Beta_sample_def)
next
  case (Dirichlet K alpha)
  with assms(1) have len: "length alpha = distribution.num_factors d"
    "distribution.num_vars d = K * distribution.num_factors d"
    by (simp_all add: well_shaped_def)
  have fit: "i * K + K \<le> K * distribution.num_factors d" if "i < distribution.num_factors d" for i
  proof -
    from that have "Suc i \<le> distribution.num_factors d" by simp
    then have "Suc i * K \<le> distribution.num_factors d * K" by (rule mult_le_mono1)
    then show ?thesis by (simp add: ac_simps)
  qed
  have "\<exists>y. for_range [0..<distribution.num_factors d]
       (\<lambda>i x. and_then (getitem alpha i) (\<lambda>a.
          Inr (setblock x (i * K)
                 (map (\<lambda>r. map (\<lambda>k. dirichlet_rvs st i r k a) [0..<K]) [0..<sz]))))
       (zeros sz (distribution.num_vars d)) = Inr y \<and> has_shape y sz (distribution.num_vars d)"
    by (rule for_range_invariant)
      (auto simp add: getitem_def and_then_def len has_shape_zeros list_all_iff fit
        intro!: has_shape_setblock[where K = K])
  with Dirichlet show ?thesis by (simp add: sample_def Dirichlet_sample_def)
next
  case (InvGamma alpha beta)
  with assms(1) have len: "length alpha = distribution.num_vars d" "length beta = distribution.num_vars d"
    by (simp_all add: well_shaped_def)
  have "\<exists>y. for_range [0..<distribution.num_vars d]
       (\<lambda>k x. and_then (getitem alpha k) (\<lambda>a. and_then (getitem beta k) (\<lambda>b.
          Inr (setcol x k (map (\<lambda>r. invgamma_rvs st k r a b) [0..<sz])))))
       (zeros sz (distribution.num_vars d)) = Inr y \<and> has_shape y sz (distribution.num_vars d)"
    by (rule for_range_invariant)
      (auto simp add: getitem_def and_then_def len has_shape_setcol has_shape_zeros)
  with InvGamma show ?thesis by (simp add: sample_def InvGamma_sample_def)
next
  case (Multinomial K pi')
  with assms(1) have len: "length pi' = distribution.num_factors d"
    "distribution.num_vars d = K * distribution.num_factors d"
    by (simp_all add: well_shaped_def)
  have fit: "i * K + K \<le> K * distribution.num_factors d" if "i < distribution.num_factors d" for i
  proof -
    from that have "Suc i \<le> distribution.num_factors d" by simp
    then have "Suc i * K \<le> distribution.num_factors d * K" by (rule mult_le_mono1)
    then show ?thesis by (simp add: ac_simps)
  qed
  have "\<exists>y. for_range [0..<distribution.num_factors d]
       (\<lambda>i x. and_then (getitem pi' i) (\<lambda>a.
          Inr (setblock x (i * K)
                 (map (\<lambda>r. map (\<lambda>k. multinomial_rvs st i r k 1 a) [0..<K]) [0..<sz]))))
       (zeros sz (distribution.num_vars d)) = Inr y \<and> has_shape y sz (distribution.num_vars d)"
    by (rule for_range_invariant)
      (auto simp add: getitem_def and_then_def len has_shape_zeros list_all_iff fit
        intro!: has_shape_setblock[where K = K])
  with Multinomial show ?thesis by (simp add: sample_def Multinomial_sample_def)
next
  case (Normal loc scale)
  with assms have len: "length loc = distribution.num_vars d" "length scale = distribution.num_vars d"
    by (simp_all add: well_shaped_def)
  with Normal show ?thesis
    by (auto simp add: sample_def Distribution_sample_def sample_noise_def reparam_def
        Normal_sample_noise_def Normal_reparam_def broadcast_def and_then_def has_shape_def
        random_normal2_def list_all_iff)
next
  case (PointMass params)
  with assms show ?thesis
    by (cases sz)
      (simp_all add: sample_def PointMass_sample_def tf_pack_def and_then_def has_shape_def
        well_shaped_def list_all_iff)
qed

lemma Normal_sample_path:
  assumes "attrs d = Normal loc scale"
  shows "sample st g d sz = and_then (sample_noise g d sz) (reparam d)"
  using assms by (simp add: sample_def Distribution_sample_def)

lemma not_Normal_unsupported:
  assumes "\<not> isinstance_Normal d"
  shows "sample_noise g d sz = Inl NotImplementedError \<and> reparam d eps = Inl NotImplementedError \<and>
    class_defines ''sample'' d \<and> \<not> class_defines ''sample_noise'' d \<and>
    \<not> class_defines ''reparam'' d"
  using assms
  by (cases "attrs d")
    (simp_all add: isinstance_Normal_def sample_noise_def reparam_def class_defines_def
      Distribution_sample_noise_def Distribution_reparam_def)

lemma constructed_sample_tensor:
  assumes "constructed d"
  shows "distribution.sample_tensor d = (isinstance_Normal d \<or> isinstance_PointMass d)"
  using assms
  by (cases rule: constructed.cases)
    (auto simp add: isinstance_Normal_def isinstance_PointMass_def Bernoulli_init_def
      Beta_init_def Dirichlet_init_def InvGamma_init_def Multinomial_init_def Normal_init_def
      PointMass_init_def Let_def and_then_def split: if_splits option.splits sum.splits)

text \<open>
  C6 (as amended).  For every object a constructor returns: \<open>sample_tensor\<close> is true
  exactly for \<open>Normal\<close> and \<open>PointMass\<close>.  A \<open>Normal\<close> samples as
  \<open>reparam(sample_noise(size))\<close>; when \<open>loc\<close> and \<open>scale\<close> have one entry per variable and
  \<open>size \<ge> 1\<close>, that returns an array of shape \<open>[size, num_vars]\<close>.  Every other class
  defines a \<open>sample\<close> of its own and neither \<open>sample_noise\<close> nor \<open>reparam\<close>, so that
  \<open>reparam(sample_noise(size))\<close> raises \<open>NotImplementedError\<close> for it; the \<open>sample\<close> of a
  \<open>PointMass\<close> returns \<open>size\<close> copies of \<open>params\<close> when \<open>size \<ge> 1\<close>.
\<close>

theorem sampling_paths:
  assumes "constructed d"
  shows "(distribution.sample_tensor d \<longleftrightarrow> isinstance_Normal d \<or> isinstance_PointMass d) \<and>
    (isinstance_Normal d \<longrightarrow>
       sample st g d sz = and_then (sample_noise g d sz) (reparam d)) \<and>
    (isinstance_Normal d \<and> well_shaped d \<and> 1 \<le> sz \<longrightarrow>
       (\<exists>a. sample st g d sz = Inr a \<and> has_shape a sz (distribution.num_vars d))) \<and>
    (\<not> isinstance_Normal d \<longrightarrow>
       class_defines ''sample'' d \<and> \<not> class_defines ''sample_noise'' d \<and>
       \<not> class_defines ''reparam'' d \<and>
       and_then (sample_noise g d sz) (reparam d) = Inl NotImplementedError) \<and>
    (\<forall>params. attrs d = PointMass params \<and> 1 \<le> sz \<longrightarrow>
       sample st g d sz = Inr \<lparr>ncols = length params, rows = replicate sz params\<rparr>)"
proof (intro conjI impI allI)
  show "distribution.sample_tensor d \<longleftrightarrow> isinstance_Normal d \<or> isinstance_PointMass d"
    using assms by (rule constructed_sample_tensor)
  show "sample st g d sz = and_then (sample_noise g d sz) (reparam d)" if "isinstance_Normal d"
  proof -
    from that obtain loc scale where "attrs d = Normal loc scale"
      by (auto simp add: isinstance_Normal_def split: variant.splits)
    then show ?thesis by (rule Normal_sample_path)
  qed
  show "\<exists>a. sample st g d sz = Inr a \<and> has_shape a sz (distribution.num_vars d)"
    if "isinstance_Normal d \<and> well_shaped d \<and> 1 \<le> sz"
    using that by (simp add: sample_shape)
  show "class_defines ''sample'' d" and "\<not> class_defines ''sample_noise'' d"
    and "\<not> class_defines ''reparam'' d"
    and "and_then (sample_noise g d sz) (reparam d) = Inl NotImplementedError"
    if "\<not> isinstance_Normal d"
    using not_Normal_unsupported[OF that, of g sz] by (simp_all add: and_then_def)
  show "sample st g d sz = Inr \<lparr>ncols = length params, rows = replicate sz params\<rparr>"
    if "attrs d = PointMass params \<and> 1 \<le> sz" for params
    using that
    by (cases sz) (simp_all add: sample_def PointMass_sample_def tf_pack_def and_then_def)
qed

theorem sampling_paths_witness:
  "constructed Normal3 \<and> constructed Bernoulli2 \<and>
   constructed (PointMass_init 2 (Some [3, 4]) noise0) \<and>
   distribution.sample_tensor Normal3 \<and> \<not> distribution.sample_tensor Bernoulli2 \<and>
   distribution.sample_tensor (PointMass_init 2 (Some [3, 4]) noise0) \<and>
   isinstance_Normal Normal3 \<and> well_shaped Normal3 \<and>
   sample stats0 noise00 Normal3 2 = and_then (sample_noise noise00 Normal3 2) (reparam Normal3) \<and>
   (\<exists>a. sample stats0 noise00 Normal3 2 = Inr a \<and>
      has_shape a 2 (distribution.num_vars Normal3)) \<and>
   sample stats0 noise00 Normal3 2 = Inr \<lparr>ncols = 3, rows = [[0, 0, 0], [0, 0, 0]]\<rparr> \<and>
   class_defines ''sample'' Bernoulli2 \<and>
   and_then (sample_noise noise00 Bernoulli2 2) (reparam Bernoulli2) = Inl NotImplementedError \<and>
   sample stats0 noise00 Bernoulli2 2 = Inr \<lparr>ncols = 2, rows = [[1 / 2, 1 / 2], [1 / 2, 1 / 2]]\<rparr> \<and>
   sample stats0 noise00 (PointMass_init 2 (Some [3, 4]) noise0) 2 =
     Inr \<lparr>ncols = 2, rows = [[3, 4], [3, 4]]\<rparr>"
proof -
  let ?P = "PointMass_init 2 (Some [3, 4]) noise0"
  have c: "constructed Normal3" "constructed Bernoulli2" "constructed ?P"
    unfolding Normal3_def Bernoulli2_def by (rule constructed.intros)+
  have k: "isinstance_Normal Normal3" "\<not> isinstance_Normal Bernoulli2" "\<not> isinstance_Normal ?P"
    "\<not> isinstance_PointMass Bernoulli2" "attrs ?P = PointMass [3, 4]" "isinstance_PointMass ?P"
    "well_shaped Normal3"
    by (simp_all add: isinstance_Normal_def isinstance_PointMass_def Normal3_def Bernoulli2_def
        Normal_init_def Bernoulli_init_def PointMass_init_def well_shaped_def)
  have n: "sample stats0 noise00 Normal3 2 = Inr \<lparr>ncols = 3, rows = [[0, 0, 0], [0, 0, 0]]\<rparr>"
    by (simp add: sample_def Distribution_sample_def sample_noise_def reparam_def
        Normal_sample_noise_def Normal_reparam_def broadcast_def and_then_def Normal3_def
        Normal_init_def random_normal2_def noise00_def numeral_2_eq_2 numeral_3_eq_3)
  have b: "sample stats0 noise00 Bernoulli2 2 =
      Inr \<lparr>ncols = 2, rows = [[1 / 2, 1 / 2], [1 / 2, 1 / 2]]\<rparr>"
    by (simp add: sample_def Bernoulli_sample_def Bernoulli2_def Bernoulli_init_def zeros_def
        setcol_def getitem_def and_then_def stats0_def numeral_2_eq_2)
  have p: "sample stats0 noise00 ?P 2 = Inr \<lparr>ncols = 2, rows = [[3, 4], [3, 4]]\<rparr>"
    by (simp add: sample_def PointMass_sample_def PointMass_init_def tf_pack_def and_then_def
        numeral_2_eq_2)
  have t: "distribution.sample_tensor Normal3" "\<not> distribution.sample_tensor Bernoulli2"
    "distribution.sample_tensor ?P"
    using sampling_paths[OF c(1), where st = stats0 and g = noise00 and sz = 2]
      sampling_paths[OF c(2), where st = stats0 and g = noise00 and sz = 2]
      sampling_paths[OF c(3), where st = stats0 and g = noise00 and sz = 2] k
    by blast+
  have "(1 :: nat) \<le> 2" by simp
  with k have
    r: "sample stats0 noise00 Normal3 2 = and_then (sample_noise noise00 Normal3 2) (reparam Normal3)"
      "\<exists>a. sample stats0 noise00 Normal3 2 = Inr a \<and> has_shape a 2 (distribution.num_vars Normal3)"
    using sampling_paths[OF c(1), where st = stats0 and g = noise00 and sz = 2]
    by blast+
  have u: "class_defines ''sample'' Bernoulli2"
    "and_then (sample_noise noise00 Bernoulli2 2) (reparam Bernoulli2) = Inl NotImplementedError"
    using sampling_paths[OF c(2), where st = stats0 and g = noise00 and sz = 2] k
    by blast+
  show ?thesis
    using c k(1,7) t r u n b p by blast
qed

text \<open>
  A \<open>PointMass\<close> has \<open>sample_tensor\<close> true, and its \<open>sample(1)\<close> is not
  \<open>reparam(sample_noise(1))\<close>: the first returns the parameters, the second raises.
\<close>

theorem PointMass_sample_not_reparam:
  "sample stats0 noise00 (PointMass_init 1 (Some [0]) noise0) 1 = Inr \<lparr>ncols = 1, rows = [[0]]\<rparr> \<and>
   and_then (sample_noise noise00 (PointMass_init 1 (Some [0]) noise0) 1)
     (reparam (PointMass_init 1 (Some [0]) noise0)) = Inl NotImplementedError \<and>
   distribution.sample_tensor (PointMass_init 1 (Some [0]) noise0)"
  by (simp add: sample_def PointMass_sample_def PointMass_init_def sample_noise_def
      Distribution_sample_noise_def and_then_def tf_pack_def)

section \<open>The entropy of a Variational\<close>

lemma entropy_loop_sum:
  assumes "list_all (\<lambda>l. \<not> isl (entropy st l)) ls"
  shows "entropy_loop st ls out = Inr (out + sum_list (map (\<lambda>l. projr (entropy st l)) ls))"
  using assms
proof (induction ls arbitrary: out)
  case Nil
  then show ?case by simp
next
  case (Cons l ls)
  then obtain h where h: "entropy st l = Inr h"
    by (cases "entropy st l") simp_all
  with Cons show ?case
    by (simp add: and_then_def add.assoc)
qed

lemma entropy_loop_raises:
  assumes "\<not> list_all (\<lambda>l. \<not> isl (entropy st l)) ls"
  shows "isl (entropy_loop st ls out)"
  using assms
proof (induction ls arbitrary: out)
  case Nil
  then show ?case by simp
next
  case (Cons l ls)
  then show ?case
    by (cases "entropy st l") (simp_all add: and_then_def)
qed

text \<open>
  C7.  \<open>Variational.entropy()\<close> is the sum, from zero, of the entropies of the layers:
  when no layer raises, the result is the sum of their results, and \<open>0\<close> for an empty
  list.  When some layer raises (its class defines no \<open>entropy\<close>), the call raises.
\<close>

theorem Variational_entropy_sum:
  "(list_all (\<lambda>l. \<not> isl (entropy st l)) (s (layers v)) \<longrightarrow>
      Variational_entropy st s v =
        Inr (sum_list (map (\<lambda>l. projr (entropy st l)) (s (layers v))))) \<and>
   (s (layers v) = [] \<longrightarrow> Variational_entropy st s v = Inr 0) \<and>
   (\<not> list_all (\<lambda>l. \<not> isl (entropy st l)) (s (layers v)) \<longrightarrow>
      isl (Variational_entropy st s v))"
  by (simp add: Variational_entropy_def entropy_loop_sum entropy_loop_raises)

theorem Variational_entropy_sum_witness:
  "list_all (\<lambda>l. \<not> isl (entropy stats0 l)) (store12 (layers (Variational_init store12 1))) \<and>
   Variational_entropy stats0 store12 (Variational_init store12 1) =
     Inr (sum_list (map (\<lambda>l. projr (entropy stats0 l))
            (store12 (layers (Variational_init store12 1))))) \<and>
   Variational_entropy stats0 store12 (Variational_init store12 1) = Inr 4 \<and>
   store0 (layers (Variational_init store0 default_layers)) = [] \<and>
   Variational_entropy stats0 store0 (Variational_init store0 default_layers) = Inr 0"
proof -
  let ?v = "Variational_init store12 1" and ?w = "Variational_init store0 default_layers"
  have ls: "store12 (layers ?v) = [Normal3, Bernoulli2]" "store0 (layers ?w) = []"
    by (simp_all add: Variational_init_def store12_def store0_def)
  have e: "entropy stats0 Normal3 = Inr 3" "entropy stats0 Bernoulli2 = Inr 1"
    by (simp_all add: entropy_def Normal3_def Bernoulli2_def Normal_init_def Bernoulli_init_def
        stats0_def)
  have ok: "list_all (\<lambda>l. \<not> isl (entropy stats0 l)) (store12 (layers ?v))"
    unfolding ls by (simp add: e)
  have sum: "Variational_entropy stats0 store12 ?v =
      Inr (sum_list (map (\<lambda>l. projr (entropy stats0 l)) (store12 (layers ?v))))"
    using Variational_entropy_sum[of stats0 store12 ?v] ok by blast
  have four: "Variational_entropy stats0 store12 ?v = Inr 4"
    unfolding sum ls by (simp add: e)
  have zero: "Variational_entropy stats0 store0 ?w = Inr 0"
    using Variational_entropy_sum[of stats0 store0 ?w] ls(2) by blast
  show ?thesis
    using ok sum four zero ls(2) by blast
qed

section \<open>PointMass and the methods a class does not define\<close>

text \<open>
  C8.  For a \<open>PointMass\<close> with one parameter per variable and \<open>size \<ge> 1\<close>,
  \<open>sample(size)\<close> returns an array of shape \<open>[size, num_vars]\<close> each of whose rows is the
  parameter vector \<open>params\<close>.
\<close>

theorem PointMass_sample_rows:
  assumes "1 \<le> sz" and "attrs d = PointMass params" and "length params = distribution.num_vars d"
  shows "\<exists>a. sample st g d sz = Inr a \<and> has_shape a sz (distribution.num_vars d) \<and>
    list_all (\<lambda>r. r = params) (rows a)"
  using assms
  by (cases sz)
    (simp_all add: sample_def PointMass_sample_def tf_pack_def and_then_def has_shape_def
      list_all_iff)

theorem PointMass_sample_rows_witness:
  "(1 :: nat) \<le> 3 \<and> attrs (PointMass_init 2 (Some [3, 4]) noise0) = PointMass [3, 4] \<and>
   length [3 :: real, 4] = distribution.num_vars (PointMass_init 2 (Some [3, 4]) noise0) \<and>
   (\<exists>a. sample stats0 noise00 (PointMass_init 2 (Some [3, 4]) noise0) 3 = Inr a \<and>
      has_shape a 3 (distribution.num_vars (PointMass_init 2 (Some [3, 4]) noise0)) \<and>
      list_all (\<lambda>r. r = [3, 4]) (rows a)) \<and>
   sample stats0 noise00 (PointMass_init 2 (Some [3, 4]) noise0) 3 =
     Inr \<lparr>ncols = 2, rows = [[3, 4], [3, 4], [3, 4]]\<rparr>"
proof -
  let ?P = "PointMass_init 2 (Some [3, 4]) noise0"
  have a: "attrs ?P = PointMass [3, 4]" "length [3 :: real, 4] = distribution.num_vars ?P"
    by (simp_all add: PointMass_init_def)
  have v: "sample stats0 noise00 ?P 3 = Inr \<lparr>ncols = 2, rows = [[3, 4], [3, 4], [3, 4]]\<rparr>"
    by (simp add: sample_def PointMass_sample_def PointMass_init_def numeral_3_eq_3 tf_pack_def
        and_then_def)
  show ?thesis
    using PointMass_sample_rows[of 3 ?P "[3, 4]" stats0 noise00] a v by simp
qed

text \<open>
  C9.  \<open>Distribution.sample_noise\<close> and \<open>Distribution.reparam\<close> raise
  \<open>NotImplementedError\<close>, and this is what \<open>sample_noise\<close> and \<open>reparam\<close> do on an object
  whose class does not define them.  \<open>PointMass\<close> defines no \<open>entropy\<close>, and \<open>entropy()\<close>
  on a \<open>PointMass\<close> raises \<open>NotImplementedError\<close>.
\<close>

theorem unsupported_operations:
  "Distribution_sample_noise d sz = Inl NotImplementedError \<and>
   Distribution_reparam d eps = Inl NotImplementedError \<and>
   (\<not> class_defines ''sample_noise'' d \<longrightarrow> sample_noise g d sz = Inl NotImplementedError) \<and>
   (\<not> class_defines ''reparam'' d \<longrightarrow> reparam d eps = Inl NotImplementedError) \<and>
   (isinstance_PointMass d \<longrightarrow>
      \<not> class_defines ''entropy'' d \<and> entropy st d = Inl NotImplementedError)"
  by (cases "attrs d")
    (simp_all add: class_defines_def sample_noise_def reparam_def entropy_def
      isinstance_PointMass_def Distribution_sample_noise_def Distribution_reparam_def
      Distribution_entropy_def)

theorem unsupported_operations_witness:
  "\<not> class_defines ''sample_noise'' Bernoulli2 \<and>
   sample_noise noise00 Bernoulli2 1 = Inl NotImplementedError \<and>
   \<not> class_defines ''reparam'' Bernoulli2 \<and>
   reparam Bernoulli2 \<lparr>ncols = 2, rows = [[0, 0]]\<rparr> = Inl NotImplementedError \<and>
   isinstance_PointMass (PointMass_init 2 (Some [3, 4]) noise0) \<and>
   \<not> class_defines ''entropy'' (PointMass_init 2 (Some [3, 4]) noise0) \<and>
   entropy stats0 (PointMass_init 2 (Some [3, 4]) noise0) = Inl NotImplementedError"
proof -
  have h: "\<not> class_defines ''sample_noise'' Bernoulli2" "\<not> class_defines ''reparam'' Bernoulli2"
    "isinstance_PointMass (PointMass_init 2 (Some [3, 4]) noise0)"
    by (simp_all add: class_defines_def Bernoulli2_def Bernoulli_init_def isinstance_PointMass_def
        PointMass_init_def)
  show ?thesis
    using h
      unsupported_operations[of Bernoulli2 1 "\<lparr>ncols = 2, rows = [[0, 0]]\<rparr>" noise00 stats0]
      unsupported_operations[of "PointMass_init 2 (Some [3, 4]) noise0" 1
        "\<lparr>ncols = 2, rows = [[0, 0]]\<rparr>" noise00 stats0]
    by simp
qed

text \<open>
  C10.  A \<open>PointMass\<close> constructed for \<open>n\<close> variables has \<open>num_factors = 1\<close> and
  \<open>num_vars = num_params = n\<close>.  Its \<open>log_prob_i\<close> raises \<open>IndexError\<close> for every factor
  index but \<open>0\<close>, and \<open>log_prob_i(0, xs)\<close> is, row by row, \<open>1\<close> if the entry of column \<open>0\<close>
  equals \<open>params[0]\<close> and \<open>0\<close> otherwise (\<open>xs\<close> with a column \<open>0\<close>, \<open>params\<close> with an entry
  \<open>0\<close>): no other column and no other parameter is read.
\<close>

theorem PointMass_single_factor:
  "distribution.num_factors (PointMass_init n params g) = 1 \<and>
   distribution.num_vars (PointMass_init n params g) = n \<and>
   distribution.num_params (PointMass_init n params g) = n \<and>
   (i \<noteq> 0 \<longrightarrow> log_prob_i st (PointMass_init n params g) i xs = Inl IndexError) \<and>
   (\<forall>ps. attrs (PointMass_init n params g) = PointMass ps \<and> ps \<noteq> [] \<and> 0 < ncols xs \<longrightarrow>
      log_prob_i st (PointMass_init n params g) 0 xs =
        Inr (map (\<lambda>r. if r ! 0 = ps ! 0 then 1 else 0) (rows xs)))"
  by (auto simp add: PointMass_init_def log_prob_i_def PointMass_log_prob_i_def getcol_def
      getitem_def and_then_def)

theorem PointMass_single_factor_witness:
  "distribution.num_factors (PointMass_init 2 (Some [3, 4]) noise0) = 1 \<and>
   distribution.num_vars (PointMass_init 2 (Some [3, 4]) noise0) = 2 \<and>
   distribution.num_params (PointMass_init 2 (Some [3, 4]) noise0) = 2 \<and>
   log_prob_i stats0 (PointMass_init 2 (Some [3, 4]) noise0) 1
     \<lparr>ncols = 2, rows = [[3, 9], [3, 4], [0, 4]]\<rparr> = Inl IndexError \<and>
   attrs (PointMass_init 2 (Some [3, 4]) noise0) = PointMass [3, 4] \<and>
   log_prob_i stats0 (PointMass_init 2 (Some [3, 4]) noise0) 0
     \<lparr>ncols = 2, rows = [[3, 9], [3, 4], [0, 4]]\<rparr> = Inr [1, 1, 0]"
proof -
  let ?P = "PointMass_init 2 (Some [3, 4]) noise0"
  let ?xs = "\<lparr>ncols = 2, rows = [[3, 9], [3, 4], [0, 4]]\<rparr>"
  have a: "attrs ?P = PointMass [3, 4]"
    by (simp add: PointMass_init_def)
  show ?thesis
    using a
      PointMass_single_factor[of 2 "Some [3, 4]" noise0 1 stats0 ?xs]
      PointMass_single_factor[of 2 "Some [3, 4]" noise0 0 stats0 ?xs]
    by simp
qed

end
